theory Spec2Isabelle
  imports Complex_Main
begin

text \<open>
  The movie table client of \<^verbatim>\<open>dynamodb_handler.py\<close> and the menu of \<^verbatim>\<open>main.py\<close>,
  as functions on an explicit state: the store behind the table, the calls made on it, the
  lines printed and the lines still to be read. The table itself, and the parsing of
  numbers, are parameters.
\<close>

section \<open>Data model\<close>

text \<open>
  Attribute values as boto3 hands them to Python: a number is a \<^verbatim>\<open>Decimal\<close> (an
  exact value, here a rational), and an item is a dict from attribute names to values.
  A dict is kept as an association list read with \<^const>\<open>map_of\<close>.
\<close>

datatype attr =
    N rat
  | S string
  | BOOL bool
  | NULL
  | L "attr list"
  | M "(string \<times> attr) list"

type_synonym item = "(string \<times> attr) list"

text \<open>Python truthiness, as used by \<^verbatim>\<open>if movie_year:\<close>.\<close>

fun truthy :: "attr \<Rightarrow> bool" where
  "truthy (N q) = (q \<noteq> 0)"
| "truthy (S s) = (s \<noteq> [])"
| "truthy (BOOL b) = b"
| "truthy NULL = False"
| "truthy (L xs) = (xs \<noteq> [])"
| "truthy (M kvs) = (kvs \<noteq> [])"

text \<open>
  Python \<^verbatim>\<open>==\<close> between two attribute values: numbers and booleans compare by numeric
  value (\<^verbatim>\<open>Decimal('1999') == 1999\<close>), everything else structurally.
\<close>

fun num_of :: "attr \<Rightarrow> rat option" where
  "num_of (N q) = Some q"
| "num_of (BOOL b) = Some (if b then 1 else 0)"
| "num_of _ = None"

definition py_eq :: "attr \<Rightarrow> attr \<Rightarrow> bool" where
  "py_eq a b =
     (case (num_of a, num_of b) of
        (Some x, Some y) \<Rightarrow> x = y
      | (None, None) \<Rightarrow> a = b
      | _ \<Rightarrow> False)"

text \<open>
  Exceptions. \<^verbatim>\<open>ClientError code message\<close> is botocore's service fault, with
  \<^verbatim>\<open>e.response['Error']['Code']\<close> and \<^verbatim>\<open>['Message']\<close>; the others are what the
  handlers do not catch.
\<close>

datatype exn =
    ClientError string string
  | KeyError string
  | EOFError
  | OtherException string

record scan_response =
  Items :: "item list option"
  LastEvaluatedKey :: "item option"

text \<open>
  A call made on the table: \<^verbatim>\<open>scan\<close> with the title of its filter and its
  \<^verbatim>\<open>ExclusiveStartKey\<close> (each if any), \<^verbatim>\<open>update_item\<close> with the year and title of
  the key, the update expression, the value of \<^verbatim>\<open>:r\<close> and \<^verbatim>\<open>ReturnValues\<close>, and
  \<^verbatim>\<open>delete_item\<close> with the year and title of the key and \<^verbatim>\<open>ReturnValues\<close>.
\<close>

datatype call =
    ScanCall "string option" "item option"
  | UpdateItemCall attr string string rat string
  | DeleteItemCall attr string string

text \<open>
  What is printed: \<open>Print text args\<close> stands for one \<^verbatim>\<open>print\<close> statement (or the
  prompt of one \<^verbatim>\<open>input\<close>) of the source, \<open>text\<close> being its string with \<^verbatim>\<open>{}\<close>
  for each value the f-string shows (line breaks at its ends left out) and \<open>args\<close> these
  values in order. The type \<open>'f\<close>
  is Python's \<^verbatim>\<open>float\<close>, which is not modelled: a rating is carried around and
  handed to the store, never computed with.
\<close>

datatype 'f arg =
    Str string
  | Len nat
  | Val attr
  | Flt 'f
  | Exn exn
  | Json item

datatype 'f msg = Print string "'f arg list"

text \<open>
  The environment: the table behind \<^verbatim>\<open>self.table\<close> and the library functions the
  code calls. A scan reads the store (\<open>'w\<close>) and returns a page or raises; its arguments
  are the title of \<^verbatim>\<open>FilterExpression=Attr('title').eq(title)\<close> (if any) and the
  \<^verbatim>\<open>ExclusiveStartKey\<close> (if any). \<^verbatim>\<open>update_item\<close> takes the key (year, title), the
  update expression, the value of \<^verbatim>\<open>:r\<close> and \<^verbatim>\<open>ReturnValues\<close>;
  \<^verbatim>\<open>delete_item\<close> the key and \<^verbatim>\<open>ReturnValues\<close>; both return a response dict or
  raise, and the store after the call. \<open>float_of_str\<close> and \<open>int_of_str\<close> are
  \<^verbatim>\<open>float(s)\<close> and \<^verbatim>\<open>int(s)\<close> (\<open>None\<close> for \<^verbatim>\<open>ValueError\<close>),
  \<open>Decimal_of_float x\<close> is \<^verbatim>\<open>Decimal(str(x))\<close>, and \<open>connect\<close> is the
  exception raised by the constructor's \<^verbatim>\<open>boto3.resource\<close>, if any.
\<close>

record ('w, 'f) env =
  connect :: "exn option"
  scan :: "'w \<Rightarrow> string option \<Rightarrow> item option \<Rightarrow> exn + scan_response"
  update_item :: "'w \<Rightarrow> attr \<Rightarrow> string \<Rightarrow> string \<Rightarrow> rat \<Rightarrow> string \<Rightarrow> (exn + item) \<times> 'w"
  delete_item :: "'w \<Rightarrow> attr \<Rightarrow> string \<Rightarrow> string \<Rightarrow> (exn + item) \<times> 'w"
  float_of_str :: "string \<Rightarrow> 'f option"
  int_of_str :: "string \<Rightarrow> int option"
  Decimal_of_float :: "'f \<Rightarrow> rat"

text \<open>
  The state of a run: the store, the calls made on the table so far, what was printed so
  far, and the lines still to be read from standard input.
\<close>

record ('w, 'f) state =
  world :: 'w
  calls :: "call list"
  out :: "'f msg list"
  stdin :: "string list"

definition emit :: "'f msg \<Rightarrow> ('w, 'f) state \<Rightarrow> ('w, 'f) state" where
  "emit m s = s\<lparr>out := out s @ [m]\<rparr>"

definition called :: "call \<Rightarrow> ('w, 'f) state \<Rightarrow> ('w, 'f) state" where
  "called c s = s\<lparr>calls := calls s @ [c]\<rparr>"

section \<open>The table client (dynamodb_handler.py)\<close>

text \<open>\<^verbatim>\<open>response.get('Items', [])\<close>\<close>

definition get_Items :: "scan_response \<Rightarrow> item list" where
  "get_Items response = (case Items response of None \<Rightarrow> [] | Some xs \<Rightarrow> xs)"

text \<open>
  The pagination loop, written three times in the source (in \<^verbatim>\<open>get_all_records\<close>,
  \<^verbatim>\<open>update_movie_rating_by_title\<close> and \<^verbatim>\<open>find_movies_by_title\<close>) with the
  filter as the only difference:
  \<^verbatim>\<open>
  while 'LastEvaluatedKey' in response:
      response = self.table.scan(FilterExpression=..., ExclusiveStartKey=response['LastEvaluatedKey'])
      items.extend(response.get('Items', []))
  \<close>
  Nothing bounds the number of pages, so the loop is a partial function: \<open>None\<close> is a
  loop that never ends. An exception of the scan leaves the loop.
\<close>

partial_function (option) scan_loop ::
  "('w, 'f) env \<Rightarrow> string option \<Rightarrow> scan_response \<Rightarrow> item list \<Rightarrow> ('w, 'f) state
     \<Rightarrow> ((exn + item list) \<times> ('w, 'f) state) option" where
  "scan_loop env flt response items s =
     (case LastEvaluatedKey response of
        None \<Rightarrow> Some (Inr items, s)
      | Some k \<Rightarrow>
          (case scan env (world s) flt (Some k) of
             Inl e \<Rightarrow> Some (Inl e, called (ScanCall flt (Some k)) s)
           | Inr response' \<Rightarrow>
               scan_loop env flt response' (items @ get_Items response')
                 (called (ScanCall flt (Some k)) s)))"

declare scan_loop.simps [code]

text \<open>
  The first scan, then the loop:
  \<^verbatim>\<open>
  response = self.table.scan(...)
  items = response.get('Items', [])
  while ...
  \<close>
\<close>

definition scan_all ::
  "('w, 'f) env \<Rightarrow> string option \<Rightarrow> ('w, 'f) state
     \<Rightarrow> ((exn + item list) \<times> ('w, 'f) state) option" where
  "scan_all env flt s =
     (case scan env (world s) flt None of
        Inl e \<Rightarrow> Some (Inl e, called (ScanCall flt None) s)
      | Inr response \<Rightarrow>
          scan_loop env flt response (get_Items response) (called (ScanCall flt None) s))"

text \<open>
  A method returns \<open>Inr v\<close> for \<^verbatim>\<open>return v\<close> (with \<open>None\<close> for Python's
  \<^verbatim>\<open>None\<close> where the method can return it) and \<open>Inl e\<close> for an exception that it
  does not catch: \<^verbatim>\<open>except ClientError\<close> catches a \<^const>\<open>ClientError\<close> only.
\<close>

definition get_all_records ::
  "('w, 'f) env \<Rightarrow> ('w, 'f) state \<Rightarrow> ((exn + item list option) \<times> ('w, 'f) state) option" where
  "get_all_records env s =
     (case scan_all env None (emit (Print ''Scanning the table for all records...'' []) s) of
        None \<Rightarrow> None
      | Some (Inr items, s') \<Rightarrow>
          Some (Inr (Some items), emit (Print ''Found {} records.'' [Len (length items)]) s')
      | Some (Inl (ClientError code message), s') \<Rightarrow>
          Some (Inr None, emit (Print ''An error occurred: {}'' [Str message]) s')
      | Some (Inl e, s') \<Rightarrow> Some (Inl e, s'))"

definition update_movie_rating ::
  "('w, 'f) env \<Rightarrow> attr \<Rightarrow> string \<Rightarrow> 'f \<Rightarrow> ('w, 'f) state
     \<Rightarrow> (exn + item option) \<times> ('w, 'f) state" where
  "update_movie_rating env year title new_rating s =
     (let s1 = emit (Print ''Updating rating for '{}' ({}) to {}...''
                       [Str title, Val year, Flt new_rating]) s;
          r = Decimal_of_float env new_rating;
          (res, w') = update_item env (world s1) year title
                        ''set info.rating = :r'' r ''UPDATED_NEW'';
          s2 = called (UpdateItemCall year title ''set info.rating = :r'' r ''UPDATED_NEW'')
                 (s1\<lparr>world := w'\<rparr>)
      in case res of
           Inr response \<Rightarrow> (Inr (Some response), emit (Print ''Update successful.'' []) s2)
         | Inl (ClientError code message) \<Rightarrow>
             if code = ''ConditionalCheckFailedException''
             then (Inr None,
                   emit (Print ''Error: A movie with title '{}' ({}) was not found.''
                           [Str title, Val year]) s2)
             else (Inr None,
                   emit (Print ''An error occurred while updating: {}'' [Str message]) s2)
         | Inl e \<Rightarrow> (Inl e, s2))"

text \<open>
  The \<^verbatim>\<open>for item in items_to_update\<close> loop of \<^verbatim>\<open>update_movie_rating_by_title\<close>,
  with \<^verbatim>\<open>updated_responses\<close> as accumulator. \<^verbatim>\<open>item.get('year')\<close> is \<open>None\<close> for
  a missing key, and \<^verbatim>\<open>if movie_year:\<close> and \<^verbatim>\<open>if update_response:\<close> test
  truthiness (an empty dict is falsy).
\<close>

fun update_each ::
  "('w, 'f) env \<Rightarrow> string \<Rightarrow> 'f \<Rightarrow> item list \<Rightarrow> item list \<Rightarrow> ('w, 'f) state
     \<Rightarrow> (exn + item list) \<times> ('w, 'f) state" where
  "update_each env title new_rating [] updated_responses s = (Inr updated_responses, s)"
| "update_each env title new_rating (item # rest) updated_responses s =
     (case (case map_of item ''year'' of
              None \<Rightarrow> None
            | Some movie_year \<Rightarrow> if truthy movie_year then Some movie_year else None) of
        Some movie_year \<Rightarrow>
          (case update_movie_rating env movie_year title new_rating s of
             (Inl e, s') \<Rightarrow> (Inl e, s')
           | (Inr update_response, s') \<Rightarrow>
               update_each env title new_rating rest
                 (case update_response of
                    None \<Rightarrow> updated_responses
                  | Some response \<Rightarrow>
                      if response \<noteq> [] then updated_responses @ [response]
                      else updated_responses)
                 s')
      | None \<Rightarrow>
          update_each env title new_rating rest updated_responses
            (emit (Print (''Warning: Movie with title '{}' found but 'year' attribute is ''
                          @ ''missing. Skipping update for this item.'') [Str title]) s))"

definition update_movie_rating_by_title ::
  "('w, 'f) env \<Rightarrow> string \<Rightarrow> 'f \<Rightarrow> ('w, 'f) state
     \<Rightarrow> ((exn + item list option) \<times> ('w, 'f) state) option" where
  "update_movie_rating_by_title env title new_rating s =
     (case scan_all env (Some title)
             (emit (Print ''Attempting to update rating for movie(s) with title '{}' to {}...''
                      [Str title, Flt new_rating]) s) of
        None \<Rightarrow> None
      | Some (Inl (ClientError code message), s') \<Rightarrow>
          Some (Inr None,
                emit (Print ''An error occurred while searching for movies by title: {}''
                        [Str message]) s')
      | Some (Inl e, s') \<Rightarrow> Some (Inl e, s')
      | Some (Inr items_to_update, s') \<Rightarrow>
          if items_to_update = []
          then Some (Inr None,
                     emit (Print ''No movie found with title '{}'. No updates performed.''
                             [Str title]) s')
          else
            (case update_each env title new_rating items_to_update []
                    (emit (Print ''Found {} movie(s) with title '{}'. Attempting to update...''
                             [Len (length items_to_update), Str title]) s') of
               (Inl e, s'') \<Rightarrow> Some (Inl e, s'')
             | (Inr updated_responses, s'') \<Rightarrow>
                 if updated_responses \<noteq> []
                 then Some (Inr (Some updated_responses),
                            emit (Print ''Successfully updated {} movie(s) with title '{}'.''
                                    [Len (length updated_responses), Str title]) s'')
                 else Some (Inr None,
                            emit (Print ''No updates were successfully applied for title '{}'.''
                                    [Str title]) s'')))"

definition find_movies_by_title ::
  "('w, 'f) env \<Rightarrow> string \<Rightarrow> ('w, 'f) state \<Rightarrow> ((exn + item list) \<times> ('w, 'f) state) option" where
  "find_movies_by_title env title s =
     (case scan_all env (Some title)
             (emit (Print ''Searching for movies with title '{}'...'' [Str title]) s) of
        None \<Rightarrow> None
      | Some (Inl (ClientError code message), s') \<Rightarrow>
          Some (Inr [],
                emit (Print ''An error occurred while searching for movies by title: {}''
                        [Str message]) s')
      | Some (Inl e, s') \<Rightarrow> Some (Inl e, s')
      | Some (Inr items, s') \<Rightarrow>
          Some (Inr items,
                if items = []
                then emit (Print ''No movie found with title '{}'.'' [Str title]) s'
                else emit (Print ''Found {} movie(s) with title '{}'.''
                             [Len (length items), Str title]) s'))"

definition delete_movie ::
  "('w, 'f) env \<Rightarrow> attr \<Rightarrow> string \<Rightarrow> ('w, 'f) state \<Rightarrow> (exn + item option) \<times> ('w, 'f) state" where
  "delete_movie env year title s =
     (let s1 = emit (Print ''Deleting movie '{}' ({})...'' [Str title, Val year]) s;
          (res, w') = delete_item env (world s1) year title ''ALL_OLD'';
          s2 = called (DeleteItemCall year title ''ALL_OLD'') (s1\<lparr>world := w'\<rparr>)
      in case res of
           Inr response \<Rightarrow>
             (Inr (Some response),
              if map_of response ''Attributes'' \<noteq> None
              then emit (Print ''Deletion successful.'' []) s2
              else emit (Print ''Movie '{}' ({}) not found. Nothing to delete.''
                           [Str title, Val year]) s2)
         | Inl (ClientError code message) \<Rightarrow>
             (Inr None, emit (Print ''An error occurred while deleting: {}'' [Str message]) s2)
         | Inl e \<Rightarrow> (Inl e, s2))"

section \<open>Presentation and controller (main.py)\<close>

text \<open>
  \<^verbatim>\<open>display_records\<close>: the text that \<^verbatim>\<open>json.dumps(record, cls=DecimalEncoder)\<close>
  produces is not modelled; what is printed for a record is the record (\<^const>\<open>Json\<close>).
  \<^verbatim>\<open>enumerate(records, 1)\<close> counts from 1.
\<close>

definition display_records :: "item list \<Rightarrow> ('w, 'f) state \<Rightarrow> ('w, 'f) state" where
  "display_records records s =
     (if records = [] then emit (Print ''No records to display.'' []) s
      else
        emit (Print ''-----------------------------------'' [])
          (foldl (\<lambda>s' (i, record).
                    emit (Print ''{}'' [Json record]) (emit (Print ''--- Record {} ---'' [Len i]) s'))
             (emit (Print ''--- Displaying DynamoDB Records ---'' []) s)
             (zip [1 ..< Suc (length records)] records)))"

text \<open>
  \<^verbatim>\<open>input(prompt)\<close> prints the prompt and reads the next line; at the end of the
  input it raises \<^verbatim>\<open>EOFError\<close>.
\<close>

definition input_line :: "'f msg \<Rightarrow> ('w, 'f) state \<Rightarrow> (exn + string) \<times> ('w, 'f) state" where
  "input_line prompt s =
     (case stdin s of
        [] \<Rightarrow> (Inl EOFError, emit prompt s)
      | l # ls \<Rightarrow> (Inr l, (emit prompt s)\<lparr>stdin := ls\<rparr>))"

text \<open>
  \<^verbatim>\<open>str.lower()\<close> on the ASCII letters; a string is a list of bytes here, and no other
  character than \<^verbatim>\<open>Y\<close> and \<^verbatim>\<open>y\<close> has the lower case \<^verbatim>\<open>y\<close>, which is all the
  source compares the result with.
\<close>

definition lower_char :: "char \<Rightarrow> char" where
  "lower_char c =
     (case map_of (zip ''ABCDEFGHIJKLMNOPQRSTUVWXYZ'' ''abcdefghijklmnopqrstuvwxyz'') c of
        None \<Rightarrow> c
      | Some d \<Rightarrow> d)"

definition lower :: "string \<Rightarrow> string" where
  "lower str = map lower_char str"

text \<open>
  The rating loop of choice 2:
  \<^verbatim>\<open>
  new_rating_str = ""
  while not new_rating_str:
      new_rating_str = input("Enter the new rating (e.g., 8.5): ")
      try:
          new_rating = float(new_rating_str)
      except ValueError:
          print("Invalid rating. Please enter a number.")
          new_rating_str = "" # Reset to loop again
  \<close>
  At the head of the loop \<^verbatim>\<open>new_rating_str\<close> is empty; the loop is left with the
  parsed value when the line read is not empty and parses. Each round reads a line, so the
  loop ends with the input at the latest.
\<close>

function rating_loop ::
  "('w, 'f) env \<Rightarrow> ('w, 'f) state \<Rightarrow> (exn + 'f) \<times> ('w, 'f) state" where
  "rating_loop env s =
     (case input_line (Print ''Enter the new rating (e.g., 8.5): '' []) s of
        (Inl e, s1) \<Rightarrow> (Inl e, s1)
      | (Inr new_rating_str, s1) \<Rightarrow>
          (case float_of_str env new_rating_str of
             None \<Rightarrow>
               rating_loop env (emit (Print ''Invalid rating. Please enter a number.'' []) s1)
           | Some new_rating \<Rightarrow>
               if new_rating_str = [] then rating_loop env s1 else (Inr new_rating, s1)))"
  by pat_completeness auto
termination
  by (relation "measure (\<lambda>(env, s). length (stdin s))")
     (auto simp: input_line_def emit_def split: list.splits)

declare rating_loop.simps [simp del]

text \<open>Choice 1 (lines 49-54).\<close>

definition fetch_flow ::
  "('w, 'f) env \<Rightarrow> ('w, 'f) state \<Rightarrow> ((exn + unit) \<times> ('w, 'f) state) option" where
  "fetch_flow env s =
     (case get_all_records env (emit (Print ''--- Fetching all records ---'' []) s) of
        None \<Rightarrow> None
      | Some (Inl e, s1) \<Rightarrow> Some (Inl e, s1)
      | Some (Inr all_records, s1) \<Rightarrow>
          (case all_records of
             None \<Rightarrow> Some (Inr (), s1)
           | Some records \<Rightarrow> Some (Inr (), display_records records s1)))"

text \<open>Choice 2 (lines 56-71).\<close>

definition update_flow ::
  "('w, 'f) env \<Rightarrow> ('w, 'f) state \<Rightarrow> ((exn + unit) \<times> ('w, 'f) state) option" where
  "update_flow env s =
     (case input_line (Print ''Enter the title of the movie to update: '' [])
             (emit (Print ''--- Interactive Movie Rating Update ---'' []) s) of
        (Inl e, s1) \<Rightarrow> Some (Inl e, s1)
      | (Inr movie_title_to_update, s1) \<Rightarrow>
          (case rating_loop env s1 of
             (Inl e, s2) \<Rightarrow> Some (Inl e, s2)
           | (Inr new_rating, s2) \<Rightarrow>
               (case update_movie_rating_by_title env movie_title_to_update new_rating s2 of
                  None \<Rightarrow> None
                | Some (Inl e, s3) \<Rightarrow> Some (Inl e, s3)
                | Some (Inr r, s3) \<Rightarrow> Some (Inr (), s3))))"

text \<open>Choice 3 (lines 73-79).\<close>

definition find_flow ::
  "('w, 'f) env \<Rightarrow> ('w, 'f) state \<Rightarrow> ((exn + unit) \<times> ('w, 'f) state) option" where
  "find_flow env s =
     (case input_line (Print ''Enter the title of the movie to find: '' [])
             (emit (Print ''--- Find Movie by Title ---'' []) s) of
        (Inl e, s1) \<Rightarrow> Some (Inl e, s1)
      | (Inr movie_title_to_find, s1) \<Rightarrow>
          (case find_movies_by_title env movie_title_to_find s1 of
             None \<Rightarrow> None
           | Some (Inl e, s2) \<Rightarrow> Some (Inl e, s2)
           | Some (Inr found_movies, s2) \<Rightarrow>
               if found_movies \<noteq> [] then Some (Inr (), display_records found_movies s2)
               else Some (Inr (), s2)))"

text \<open>
  Choice 4, lines 90-105: the value of \<^verbatim>\<open>year_to_delete\<close>, \<open>None\<close> for Python's
  \<^verbatim>\<open>None\<close>. \<^verbatim>\<open>movie['title']\<close> and \<^verbatim>\<open>movie['year']\<close> raise \<^verbatim>\<open>KeyError\<close> on
  a missing key. A year that is \<^const>\<open>NULL\<close> in the table is Python's \<^verbatim>\<open>None\<close>, so
  \<^verbatim>\<open>year_to_delete = movie['year']\<close> leaves \<^verbatim>\<open>year_to_delete\<close> at \<^verbatim>\<open>None\<close> for
  it. The year read by \<^verbatim>\<open>int\<close> is the number \<open>N (of_int n)\<close>. \<open>found_movies\<close> is
  not empty here.
\<close>

definition choose_year ::
  "('w, 'f) env \<Rightarrow> item list \<Rightarrow> ('w, 'f) state \<Rightarrow> (exn + attr option) \<times> ('w, 'f) state" where
  "choose_year env found_movies s =
     (case found_movies of
        [movie] \<Rightarrow>
          (let s1 = display_records [movie] (emit (Print ''Found one movie:'' []) s) in
           case map_of movie ''title'' of
             None \<Rightarrow> (Inl (KeyError ''title''), s1)
           | Some movie_title \<Rightarrow>
               (case map_of movie ''year'' of
                  None \<Rightarrow> (Inl (KeyError ''year''), s1)
                | Some movie_year \<Rightarrow>
                    (case input_line
                            (Print ''Are you sure you want to delete '{}' ({})? (y/n): ''
                               [Val movie_title, Val movie_year]) s1 of
                       (Inl e, s2) \<Rightarrow> (Inl e, s2)
                     | (Inr confirm, s2) \<Rightarrow>
                         if lower confirm = ''y''
                         then (Inr (if movie_year = NULL then None else Some movie_year), s2)
                         else (Inr None, s2))))
      | _ \<Rightarrow>
          (let s1 = display_records found_movies
                      (emit (Print (''Found multiple movies with that title. ''
                                    @ ''Please specify which one to delete.'') []) s) in
           case input_line (Print ''Enter the YEAR of the movie to delete: '' []) s1 of
             (Inl e, s2) \<Rightarrow> (Inl e, s2)
           | (Inr year_to_delete_str, s2) \<Rightarrow>
               (case int_of_str env year_to_delete_str of
                  Some n \<Rightarrow> (Inr (Some (N (of_int n))), s2)
                | None \<Rightarrow>
                    (Inr None, emit (Print ''Invalid year. Please enter a number.'' []) s2))))"

text \<open>
  \<^verbatim>\<open>any(movie['year'] == year_to_delete for movie in found_movies)\<close>: the movies are
  visited in order up to the first one with that year.
\<close>

fun any_year_eq :: "item list \<Rightarrow> attr \<Rightarrow> exn + bool" where
  "any_year_eq [] year_to_delete = Inr False"
| "any_year_eq (movie # movies) year_to_delete =
     (case map_of movie ''year'' of
        None \<Rightarrow> Inl (KeyError ''year'')
      | Some movie_year \<Rightarrow>
          if py_eq movie_year year_to_delete then Inr True
          else any_year_eq movies year_to_delete)"

text \<open>Choice 4, lines 107-112.\<close>

definition delete_checked ::
  "('w, 'f) env \<Rightarrow> string \<Rightarrow> item list \<Rightarrow> attr option \<Rightarrow> ('w, 'f) state
     \<Rightarrow> (exn + unit) \<times> ('w, 'f) state" where
  "delete_checked env movie_title_to_delete found_movies year_to_delete s =
     (case year_to_delete of
        None \<Rightarrow> (Inr (), s)
      | Some year \<Rightarrow>
          (case any_year_eq found_movies year of
             Inl e \<Rightarrow> (Inl e, s)
           | Inr valid \<Rightarrow>
               if valid then
                 (case delete_movie env year movie_title_to_delete s of
                    (Inl e, s') \<Rightarrow> (Inl e, s')
                  | (Inr r, s') \<Rightarrow> (Inr (), s'))
               else
                 (Inr (),
                  emit (Print ''No movie with title '{}' and year '{}' was found.''
                          [Str movie_title_to_delete, Val year]) s)))"

text \<open>Choice 4 (lines 81-112).\<close>

definition delete_flow ::
  "('w, 'f) env \<Rightarrow> ('w, 'f) state \<Rightarrow> ((exn + unit) \<times> ('w, 'f) state) option" where
  "delete_flow env s =
     (case input_line (Print ''Enter the title of the movie to delete: '' [])
             (emit (Print ''--- Interactive Movie Deletion ---'' []) s) of
        (Inl e, s1) \<Rightarrow> Some (Inl e, s1)
      | (Inr movie_title_to_delete, s1) \<Rightarrow>
          (case find_movies_by_title env movie_title_to_delete s1 of
             None \<Rightarrow> None
           | Some (Inl e, s2) \<Rightarrow> Some (Inl e, s2)
           | Some (Inr found_movies, s2) \<Rightarrow>
               if found_movies = [] then Some (Inr (), s2)
               else
                 (case choose_year env found_movies s2 of
                    (Inl e, s3) \<Rightarrow> Some (Inl e, s3)
                  | (Inr year_to_delete, s3) \<Rightarrow>
                      Some (delete_checked env movie_title_to_delete found_movies
                              year_to_delete s3))))"

text \<open>
  The menu loop (lines 40-117). \<open>Inr ()\<close> is the \<^verbatim>\<open>break\<close> of choice 5, \<open>Inl e\<close> an
  exception on its way to the handler of \<^verbatim>\<open>main\<close>, \<open>None\<close> a scan that never ends.
\<close>

definition print_menu :: "('w, 'f) state \<Rightarrow> ('w, 'f) state" where
  "print_menu s =
     emit (Print ''5. Exit'' [])
       (emit (Print ''4. Delete a movie by title'' [])
          (emit (Print ''3. Find a movie by title'' [])
             (emit (Print ''2. Update a movie rating by title'' [])
                (emit (Print ''1. Fetch all movies'' [])
                   (emit (Print ''--- Main Menu ---'' []) s)))))"

partial_function (option) main_loop ::
  "('w, 'f) env \<Rightarrow> ('w, 'f) state \<Rightarrow> ((exn + unit) \<times> ('w, 'f) state) option" where
  "main_loop env s =
     (case input_line (Print ''Enter your choice (1-5): '' []) (print_menu s) of
        (Inl e, s1) \<Rightarrow> Some (Inl e, s1)
      | (Inr choice, s1) \<Rightarrow>
          if choice = ''1'' then
            (case fetch_flow env s1 of
               None \<Rightarrow> None
             | Some (Inl e, s2) \<Rightarrow> Some (Inl e, s2)
             | Some (Inr u, s2) \<Rightarrow> main_loop env s2)
          else if choice = ''2'' then
            (case update_flow env s1 of
               None \<Rightarrow> None
             | Some (Inl e, s2) \<Rightarrow> Some (Inl e, s2)
             | Some (Inr u, s2) \<Rightarrow> main_loop env s2)
          else if choice = ''3'' then
            (case find_flow env s1 of
               None \<Rightarrow> None
             | Some (Inl e, s2) \<Rightarrow> Some (Inl e, s2)
             | Some (Inr u, s2) \<Rightarrow> main_loop env s2)
          else if choice = ''4'' then
            (case delete_flow env s1 of
               None \<Rightarrow> None
             | Some (Inl e, s2) \<Rightarrow> Some (Inl e, s2)
             | Some (Inr u, s2) \<Rightarrow> main_loop env s2)
          else if choice = ''5'' then Some (Inr (), s1)
          else
            main_loop env
              (emit (Print ''Invalid choice. Please enter a number between 1 and 5.'' []) s1))"

declare main_loop.simps [code]

text \<open>
  \<^verbatim>\<open>main\<close>: the constructor of the handler prints and re-raises what
  \<^verbatim>\<open>boto3.resource\<close> raises; \<^verbatim>\<open>except Exception\<close> catches every exception of the
  session.
\<close>

definition main :: "('w, 'f) env \<Rightarrow> ('w, 'f) state \<Rightarrow> ('w, 'f) state option" where
  "main env s =
     (case (case connect env of
              Some e \<Rightarrow>
                Some (Inl e, emit (Print ''Error connecting to DynamoDB: {}'' [Exn e])
                               (emit (Print ''Starting application...'' []) s))
            | None \<Rightarrow> main_loop env (emit (Print ''Starting application...'' []) s)) of
        None \<Rightarrow> None
      | Some (Inl e, s1) \<Rightarrow>
          Some (emit (Print ''Application finished.'' [])
                  (emit (Print ''An error occurred in the main application: {}'' [Exn e]) s1))
      | Some (Inr u, s1) \<Rightarrow> Some (emit (Print ''Application finished.'' []) s1))"

section \<open>Pages of a scan\<close>

text \<open>
  \<open>scan_pages env w flt start ps\<close>: in the store \<open>w\<close>, the scan with filter \<open>flt\<close> started
  at \<open>start\<close> is answered by the pages \<open>ps\<close>, in this order and by no more: each call
  returns the next page, each page but the last carries the key at which the next call
  starts, and the last page carries none. The scan takes \<open>length ps\<close> pages.
\<close>

fun scan_pages ::
  "('w, 'f) env \<Rightarrow> 'w \<Rightarrow> string option \<Rightarrow> item option \<Rightarrow> scan_response list \<Rightarrow> bool" where
  "scan_pages env w flt start [] = False"
| "scan_pages env w flt start (p # ps) =
     (scan env w flt start = Inr p \<and>
      (case LastEvaluatedKey p of
         None \<Rightarrow> ps = []
       | Some k \<Rightarrow> scan_pages env w flt (Some k) ps))"

text \<open>
  \<open>scan_fault env w flt start ps e\<close>: the scan is answered by the pages \<open>ps\<close>, each with
  a key to continue at, and the call after them raises \<open>e\<close>.
\<close>

fun scan_fault ::
  "('w, 'f) env \<Rightarrow> 'w \<Rightarrow> string option \<Rightarrow> item option \<Rightarrow> scan_response list \<Rightarrow> exn
     \<Rightarrow> bool" where
  "scan_fault env w flt start [] e = (scan env w flt start = Inl e)"
| "scan_fault env w flt start (p # ps) e =
     (scan env w flt start = Inr p \<and>
      (case LastEvaluatedKey p of
         None \<Rightarrow> False
       | Some k \<Rightarrow> scan_fault env w flt (Some k) ps e))"

text \<open>The scan calls that fetch the pages \<open>ps\<close>, and those that end in a fault after them.\<close>

fun scan_calls :: "string option \<Rightarrow> item option \<Rightarrow> scan_response list \<Rightarrow> call list" where
  "scan_calls flt start [] = []"
| "scan_calls flt start (p # ps) = ScanCall flt start # scan_calls flt (LastEvaluatedKey p) ps"

fun fault_calls :: "string option \<Rightarrow> item option \<Rightarrow> scan_response list \<Rightarrow> call list" where
  "fault_calls flt start [] = [ScanCall flt start]"
| "fault_calls flt start (p # ps) = ScanCall flt start # fault_calls flt (LastEvaluatedKey p) ps"

text \<open>The items of the pages \<open>ps\<close>, in the order of the pages.\<close>

definition matched :: "scan_response list \<Rightarrow> item list" where
  "matched ps = concat (map get_Items ps)"

section \<open>An example table\<close>

text \<open>
  A table in memory, for the examples: the store is the list of its items. A scan
  evaluates one item per call, applies the filter to it, and returns the key of the item as
  \<^verbatim>\<open>LastEvaluatedKey\<close> while items are left; the next call continues after the item
  with that key.
\<close>

definition key_of :: "item \<Rightarrow> item" where
  "key_of item = filter (\<lambda>(k, v). k = ''year'' \<or> k = ''title'') item"

definition has_key :: "attr \<Rightarrow> string \<Rightarrow> item \<Rightarrow> bool" where
  "has_key year title item =
     (map_of item ''year'' = Some year \<and> map_of item ''title'' = Some (S title))"

fun after_key :: "item \<Rightarrow> item list \<Rightarrow> item list" where
  "after_key k [] = []"
| "after_key k (item # items) = (if key_of item = k then items else after_key k items)"

definition table_scan :: "item list \<Rightarrow> string option \<Rightarrow> item option \<Rightarrow> exn + scan_response" where
  "table_scan w flt start =
     (case (case start of None \<Rightarrow> w | Some k \<Rightarrow> after_key k w) of
        [] \<Rightarrow> Inr \<lparr>Items = Some [], LastEvaluatedKey = None\<rparr>
      | item # rest \<Rightarrow>
          Inr \<lparr>Items = Some (filter (\<lambda>i. case flt of
                                              None \<Rightarrow> True
                                            | Some t \<Rightarrow> map_of i ''title'' = Some (S t)) [item]),
               LastEvaluatedKey = (if rest = [] then None else Some (key_of item))\<rparr>)"

definition set_rating :: "rat \<Rightarrow> item \<Rightarrow> item" where
  "set_rating r item =
     map (\<lambda>(k, v). if k = ''info'' then (k, M [(''rating'', N r)]) else (k, v)) item"

definition table_update ::
  "item list \<Rightarrow> attr \<Rightarrow> string \<Rightarrow> string \<Rightarrow> rat \<Rightarrow> string \<Rightarrow> (exn + item) \<times> item list" where
  "table_update w year title expr r rv =
     (if \<exists>item \<in> set w. has_key year title item
      then (Inr [(''Attributes'', M [(''info'', M [(''rating'', N r)])]),
                 (''ResponseMetadata'', M [(''HTTPStatusCode'', N 200)])],
            map (\<lambda>item. if has_key year title item then set_rating r item else item) w)
      else (Inl (ClientError ''ValidationException''
                   ''The document path provided in the update expression is invalid for update''),
            w))"

definition table_delete ::
  "item list \<Rightarrow> attr \<Rightarrow> string \<Rightarrow> string \<Rightarrow> (exn + item) \<times> item list" where
  "table_delete w year title rv =
     (case filter (has_key year title) w of
        [] \<Rightarrow> (Inr [(''ResponseMetadata'', M [(''HTTPStatusCode'', N 200)])], w)
      | item # dups \<Rightarrow>
          (Inr [(''Attributes'', M item),
                (''ResponseMetadata'', M [(''HTTPStatusCode'', N 200)])],
           filter (\<lambda>i. \<not> has_key year title i) w))"

text \<open>
  Stand-ins for \<^verbatim>\<open>int\<close> and \<^verbatim>\<open>float\<close> in the examples: unsigned decimal numerals,
  with the value of a float kept as a rational. The examples read only such numerals (with a
  value that a float holds exactly) and \<^verbatim>\<open>abc\<close>, which Python rejects as well.
\<close>

definition digit_val :: "char \<Rightarrow> nat option" where
  "digit_val c =
     (let n = (of_char c :: nat) in if 48 \<le> n \<and> n \<le> 57 then Some (n - 48) else None)"

fun digits_val :: "nat \<Rightarrow> string \<Rightarrow> nat option" where
  "digits_val acc [] = Some acc"
| "digits_val acc (c # cs) =
     (case digit_val c of None \<Rightarrow> None | Some d \<Rightarrow> digits_val (10 * acc + d) cs)"

definition decimal_int :: "string \<Rightarrow> int option" where
  "decimal_int str = (if str = [] then None else map_option int (digits_val 0 str))"

definition decimal_rat :: "string \<Rightarrow> rat option" where
  "decimal_rat str =
     (let ip = takeWhile (\<lambda>c. c \<noteq> CHR ''.'') str;
          fp = drop (Suc (length ip)) str
      in if ip = [] \<or> (fp = [] \<and> length ip < length str) then None
         else case (digits_val 0 ip, digits_val 0 fp) of
                (Some i, Some f) \<Rightarrow> Some (of_nat i + of_nat f / 10 ^ length fp)
              | _ \<Rightarrow> None)"

definition table_env :: "(item list, rat) env" where
  "table_env =
     \<lparr>connect = None, scan = table_scan, update_item = table_update,
      delete_item = table_delete, float_of_str = decimal_rat, int_of_str = decimal_int,
      Decimal_of_float = (\<lambda>x. x)\<rparr>"

text \<open>The same table behind a service that throttles every scan call after the first.\<close>

definition throttled_env :: "(item list, rat) env" where
  "throttled_env =
     table_env\<lparr>scan := (\<lambda>w flt start.
        case start of
          None \<Rightarrow> table_scan w flt None
        | Some k \<Rightarrow> Inl (ClientError ''ProvisionedThroughputExceededException''
                          ''Rate exceeded''))\<rparr>"

text \<open>The same table behind a service that rejects every update with the given fault.\<close>

definition rejecting_env :: "string \<Rightarrow> string \<Rightarrow> (item list, rat) env" where
  "rejecting_env code message =
     table_env\<lparr>update_item := (\<lambda>w year title expr r rv. (Inl (ClientError code message), w))\<rparr>"

definition movie :: "int \<Rightarrow> string \<Rightarrow> rat \<Rightarrow> item" where
  "movie year title rating =
     [(''year'', N (of_int year)), (''title'', S title), (''info'', M [(''rating'', N rating)])]"

definition initial :: "item list \<Rightarrow> string list \<Rightarrow> (item list, rat) state" where
  "initial w ins = \<lparr>world = w, calls = [], out = [], stdin = ins\<rparr>"

text \<open>A table of three movies, and the pages of its scan.\<close>

definition three_pages :: "scan_response list" where
  "three_pages =
     [\<lparr>Items = Some [movie 1999 ''The Matrix'' (15/2)],
       LastEvaluatedKey = Some [(''year'', N 1999), (''title'', S ''The Matrix'')]\<rparr>,
      \<lparr>Items = Some [movie 2003 ''Oldboy'' 8],
       LastEvaluatedKey = Some [(''year'', N 2003), (''title'', S ''Oldboy'')]\<rparr>,
      \<lparr>Items = Some [movie 2010 ''Inception'' 9], LastEvaluatedKey = None\<rparr>]"

definition three_movies :: "item list" where
  "three_movies =
     [movie 1999 ''The Matrix'' (15/2), movie 2003 ''Oldboy'' 8, movie 2010 ''Inception'' 9]"

text \<open>
  The pages of the scans of this table for the titles \<^verbatim>\<open>Heat\<close> (no movie) and
  \<^verbatim>\<open>The Matrix\<close> (one movie, on the first page).
\<close>

definition heat_pages :: "scan_response list" where
  "heat_pages =
     [\<lparr>Items = Some [],
       LastEvaluatedKey = Some [(''year'', N 1999), (''title'', S ''The Matrix'')]\<rparr>,
      \<lparr>Items = Some [],
       LastEvaluatedKey = Some [(''year'', N 2003), (''title'', S ''Oldboy'')]\<rparr>,
      \<lparr>Items = Some [], LastEvaluatedKey = None\<rparr>]"

definition matrix_pages :: "scan_response list" where
  "matrix_pages =
     [\<lparr>Items = Some [movie 1999 ''The Matrix'' (15/2)],
       LastEvaluatedKey = Some [(''year'', N 1999), (''title'', S ''The Matrix'')]\<rparr>,
      \<lparr>Items = Some [],
       LastEvaluatedKey = Some [(''year'', N 2003), (''title'', S ''Oldboy'')]\<rparr>,
      \<lparr>Items = Some [], LastEvaluatedKey = None\<rparr>]"

definition matrix_page :: "scan_response list" where
  "matrix_page =
     [\<lparr>Items = Some [movie 1999 ''The Matrix'' (15/2)],
       LastEvaluatedKey = Some [(''year'', N 1999), (''title'', S ''The Matrix'')]\<rparr>]"

text \<open>Three movies with the title \<^verbatim>\<open>X\<close>, of the years 0, 1999 and 2003.\<close>

definition x_movies :: "item list" where
  "x_movies = [movie 0 ''X'' 5, movie 1999 ''X'' 7, movie 2003 ''X'' 8]"

text \<open>The pages of the scan of these movies for the title \<^verbatim>\<open>X\<close>.\<close>

definition x_pages :: "scan_response list" where
  "x_pages =
     [\<lparr>Items = Some [movie 0 ''X'' 5],
       LastEvaluatedKey = Some [(''year'', N 0), (''title'', S ''X'')]\<rparr>,
      \<lparr>Items = Some [movie 1999 ''X'' 7],
       LastEvaluatedKey = Some [(''year'', N 1999), (''title'', S ''X'')]\<rparr>,
      \<lparr>Items = Some [movie 2003 ''X'' 8], LastEvaluatedKey = None\<rparr>]"

section \<open>Notions used in the claims\<close>

text \<open>
  \<open>skipped_or_fails env w title new_rating item\<close>: in the store \<open>w\<close>, the loop of
  \<^verbatim>\<open>update_movie_rating_by_title\<close> skips \<open>item\<close> (its year is missing or falsy), or the
  update of \<open>item\<close> raises a \<^verbatim>\<open>ClientError\<close>.
\<close>

definition skipped_or_fails :: "('w, 'f) env \<Rightarrow> 'w \<Rightarrow> string \<Rightarrow> 'f \<Rightarrow> item \<Rightarrow> bool" where
  "skipped_or_fails env w title new_rating item =
     (case map_of item ''year'' of
        None \<Rightarrow> True
      | Some movie_year \<Rightarrow>
          if truthy movie_year then
            (case update_item env w movie_year title ''set info.rating = :r''
                    (Decimal_of_float env new_rating) ''UPDATED_NEW'' of
               (Inl (ClientError code message), w') \<Rightarrow> True
             | _ \<Rightarrow> False)
          else True)"

text \<open>
  The state after the lookup of the delete flow: the title was read, \<open>ins\<close> is what is
  left of the input, and the scan for the title was answered by the pages \<open>ps\<close>.
\<close>

definition looked_up ::
  "string \<Rightarrow> string list \<Rightarrow> scan_response list \<Rightarrow> ('w, 'f) state \<Rightarrow> ('w, 'f) state" where
  "looked_up title ins ps s =
     s\<lparr>stdin := ins,
       calls := calls s @ scan_calls (Some title) None ps,
       out := out s @
         [Print ''--- Interactive Movie Deletion ---'' [],
          Print ''Enter the title of the movie to delete: '' [],
          Print ''Searching for movies with title '{}'...'' [Str title],
          if matched ps = [] then Print ''No movie found with title '{}'.'' [Str title]
          else Print ''Found {} movie(s) with title '{}'.''
                 [Len (length (matched ps)), Str title]]\<rparr>"

section \<open>Properties of the scan\<close>

lemma world_called [simp]: "world (called c s) = world s"
  by (simp add: called_def)

lemma world_emit [simp]: "world (emit m s) = world s"
  by (simp add: emit_def)

lemma scan_loop_pages:
  "scan_pages env (world s) flt (Some k) ps \<Longrightarrow> LastEvaluatedKey r = Some k \<Longrightarrow>
   scan_loop env flt r items s =
     Some (Inr (items @ matched ps), s\<lparr>calls := calls s @ scan_calls flt (Some k) ps\<rparr>)"
proof (induction ps arbitrary: r k items s)
  case Nil
  then show ?case by simp
next
  case (Cons p ps)
  from Cons.prems have sc: "scan env (world s) flt (Some k) = Inr p" by simp
  show ?case
  proof (cases "LastEvaluatedKey p")
    case None
    with Cons.prems have "ps = []" by simp
    with None sc Cons.prems(2) show ?thesis
      by (subst scan_loop.simps, simp, subst scan_loop.simps, simp add: called_def matched_def)
  next
    case (Some k')
    with Cons.prems have "scan_pages env (world (called (ScanCall flt (Some k)) s)) flt (Some k') ps"
      by simp
    from Cons.IH [OF this Some] sc Cons.prems(2) Some show ?thesis
      by (subst scan_loop.simps) (simp add: called_def matched_def)
  qed
qed

lemma scan_all_pages:
  assumes "scan_pages env (world s) flt None ps"
  shows "scan_all env flt s =
     Some (Inr (matched ps), s\<lparr>calls := calls s @ scan_calls flt None ps\<rparr>)"
proof (cases ps)
  case Nil
  with assms show ?thesis by simp
next
  case (Cons p ps')
  show ?thesis
  proof (cases "LastEvaluatedKey p")
    case None
    with assms Cons show ?thesis
      by (simp add: scan_all_def, subst scan_loop.simps, simp add: called_def matched_def)
  next
    case (Some k)
    with assms Cons have "scan_pages env (world (called (ScanCall flt None) s)) flt (Some k) ps'"
      by simp
    from scan_loop_pages [OF this Some] assms Cons Some show ?thesis
      by (simp add: scan_all_def called_def matched_def)
  qed
qed

lemma scan_loop_fault:
  "scan_fault env (world s) flt (Some k) ps e \<Longrightarrow> LastEvaluatedKey r = Some k \<Longrightarrow>
   scan_loop env flt r items s =
     Some (Inl e, s\<lparr>calls := calls s @ fault_calls flt (Some k) ps\<rparr>)"
proof (induction ps arbitrary: r k items s)
  case Nil
  then show ?case by (subst scan_loop.simps) (simp add: called_def)
next
  case (Cons p ps)
  from Cons.prems have sc: "scan env (world s) flt (Some k) = Inr p" by simp
  from Cons.prems obtain k' where k': "LastEvaluatedKey p = Some k'"
    by (cases "LastEvaluatedKey p") auto
  with Cons.prems have "scan_fault env (world (called (ScanCall flt (Some k)) s)) flt (Some k') ps e"
    by simp
  from Cons.IH [OF this k'] sc Cons.prems(2) k' show ?case
    by (subst scan_loop.simps) (simp add: called_def)
qed

lemma scan_all_fault:
  assumes "scan_fault env (world s) flt None ps e"
  shows "scan_all env flt s = Some (Inl e, s\<lparr>calls := calls s @ fault_calls flt None ps\<rparr>)"
proof (cases ps)
  case Nil
  with assms show ?thesis
    by (simp add: scan_all_def called_def)
next
  case (Cons p ps')
  with assms obtain k where k: "LastEvaluatedKey p = Some k"
    by (cases "LastEvaluatedKey p") auto
  with assms Cons have "scan_fault env (world (called (ScanCall flt None) s)) flt (Some k) ps' e"
    by simp
  from scan_loop_fault [OF this k] assms Cons k show ?thesis
    by (simp add: scan_all_def called_def)
qed

lemma length_scan_calls: "length (scan_calls flt start ps) = length ps"
  by (induction ps arbitrary: start) auto

lemma length_fault_calls: "length (fault_calls flt start ps) = Suc (length ps)"
  by (induction ps arbitrary: start) auto

lemma count_list_concat:
  "count_list (concat xss) x = sum_list (map (\<lambda>xs. count_list xs x) xss)"
  by (induction xss) auto

lemma world_initial [simp]: "world (initial w ins) = w"
  by (simp add: initial_def)

section \<open>Properties of the table client\<close>

lemma find_movies_by_title_pages:
  assumes "scan_pages env (world s) (Some title) None ps"
  shows "find_movies_by_title env title s =
     Some (Inr (matched ps),
           s\<lparr>calls := calls s @ scan_calls (Some title) None ps,
             out := out s @
               [Print ''Searching for movies with title '{}'...'' [Str title],
                if matched ps = [] then Print ''No movie found with title '{}'.'' [Str title]
                else Print ''Found {} movie(s) with title '{}'.''
                       [Len (length (matched ps)), Str title]]\<rparr>)"
proof -
  from assms have "scan_pages env
      (world (emit (Print ''Searching for movies with title '{}'...'' [Str title]) s))
      (Some title) None ps"
    by simp
  from scan_all_pages [OF this] show ?thesis
    by (simp add: find_movies_by_title_def emit_def)
qed

lemma find_movies_by_title_fault:
  assumes "scan_fault env (world s) (Some title) None ps (ClientError code message)"
  shows "find_movies_by_title env title s =
     Some (Inr [],
           s\<lparr>calls := calls s @ fault_calls (Some title) None ps,
             out := out s @
               [Print ''Searching for movies with title '{}'...'' [Str title],
                Print ''An error occurred while searching for movies by title: {}''
                  [Str message]]\<rparr>)"
proof -
  from assms have "scan_fault env
      (world (emit (Print ''Searching for movies with title '{}'...'' [Str title]) s))
      (Some title) None ps (ClientError code message)"
    by simp
  from scan_all_fault [OF this] show ?thesis
    by (simp add: find_movies_by_title_def emit_def)
qed

lemma update_movie_rating_fault_value:
  assumes "update_item env (world s) year title ''set info.rating = :r''
             (Decimal_of_float env new_rating) ''UPDATED_NEW'' = (Inl (ClientError code message), w')"
  shows "fst (update_movie_rating env year title new_rating s) = Inr None"
  using assms by (simp add: update_movie_rating_def Let_def)

lemma update_each_none:
  "\<forall>item \<in> set items. \<forall>w. skipped_or_fails env w title new_rating item \<Longrightarrow>
   \<exists>s'. update_each env title new_rating items updated s = (Inr updated, s')"
proof (induction items arbitrary: s)
  case Nil
  then show ?case by simp
next
  case (Cons item rest)
  from Cons.prems have rest: "\<forall>item \<in> set rest. \<forall>w. skipped_or_fails env w title new_rating item"
    by simp
  from Cons.prems have it: "skipped_or_fails env (world s) title new_rating item"
    by simp
  show ?case
  proof (cases "case map_of item ''year'' of None \<Rightarrow> None
                | Some movie_year \<Rightarrow> if truthy movie_year then Some movie_year else None")
    case None
    with Cons.IH [OF rest] show ?thesis by simp
  next
    case (Some y)
    then have y: "map_of item ''year'' = Some y" "truthy y"
      by (auto split: option.splits if_splits)
    with it obtain code message w' where
      "update_item env (world s) y title ''set info.rating = :r''
         (Decimal_of_float env new_rating) ''UPDATED_NEW'' = (Inl (ClientError code message), w')"
      by (auto simp: skipped_or_fails_def split: prod.splits sum.splits exn.splits)
    from update_movie_rating_fault_value [OF this]
    obtain s1 where "update_movie_rating env y title new_rating s = (Inr None, s1)"
      by (cases "update_movie_rating env y title new_rating s") simp
    with Some Cons.IH [OF rest, of s1] show ?thesis by simp
  qed
qed

section \<open>Properties of the controller\<close>

lemma foldl_world: "(\<And>s x. world (f s x) = world s) \<Longrightarrow> world (foldl f s xs) = world s"
  by (induction xs arbitrary: s) simp_all

lemma foldl_calls: "(\<And>s x. calls (f s x) = calls s) \<Longrightarrow> calls (foldl f s xs) = calls s"
  by (induction xs arbitrary: s) simp_all

lemma foldl_stdin: "(\<And>s x. stdin (f s x) = stdin s) \<Longrightarrow> stdin (foldl f s xs) = stdin s"
  by (induction xs arbitrary: s) simp_all

lemma emit_frame [simp]:
  "calls (emit m s) = calls s" "stdin (emit m s) = stdin s" "out (emit m s) = out s @ [m]"
  by (simp_all add: emit_def)

lemma display_records_frame [simp]:
  "world (display_records records s) = world s"
  "calls (display_records records s) = calls s"
  "stdin (display_records records s) = stdin s"
  by (simp_all add: display_records_def foldl_world foldl_calls foldl_stdin case_prod_beta)

lemma input_line_cases:
  "input_line prompt s =
     (case stdin s of
        [] \<Rightarrow> (Inl EOFError, emit prompt s)
      | l # ls \<Rightarrow> (Inr l, (emit prompt s)\<lparr>stdin := ls\<rparr>))"
  by (simp add: input_line_def)

lemma py_eq_refl: "py_eq v v"
  by (cases "num_of v") (simp_all add: py_eq_def)

lemma any_year_eq_True:
  "any_year_eq found y = Inr True \<Longrightarrow>
   \<exists>m \<in> set found. \<exists>v. map_of m ''year'' = Some v \<and> py_eq v y"
  by (induction found) (auto split: option.splits if_splits)

lemma any_year_eq_all_years:
  "\<forall>m \<in> set found. \<exists>v. map_of m ''year'' = Some v \<Longrightarrow>
   any_year_eq found y =
     Inr (\<exists>m \<in> set found. \<exists>v. map_of m ''year'' = Some v \<and> py_eq v y)"
  by (induction found) auto

lemma choose_year_frame:
  "choose_year env found s = (r, s') \<Longrightarrow> world s' = world s \<and> calls s' = calls s"
  by (auto simp: choose_year_def input_line_def Let_def
      split: list.splits option.splits if_splits)

lemma choose_year_single_Some:
  "choose_year env [m] s = (Inr (Some y), s') \<Longrightarrow>
   map_of m ''year'' = Some y \<and> y \<noteq> NULL
   \<and> (\<exists>confirm rest. stdin s = confirm # rest \<and> lower confirm = ''y'')"
  by (auto simp: choose_year_def input_line_def Let_def
      split: list.splits option.splits if_splits)

lemma choose_year_single_yes:
  "stdin s = confirm # rest \<Longrightarrow> lower confirm = ''y'' \<Longrightarrow>
   map_of m ''title'' = Some t \<Longrightarrow> map_of m ''year'' = Some y \<Longrightarrow> y \<noteq> NULL \<Longrightarrow>
   fst (choose_year env [m] s) = Inr (Some y)"
  by (simp add: choose_year_def input_line_def Let_def)

lemma choose_year_multi:
  "2 \<le> length found \<Longrightarrow> stdin s = line # rest \<Longrightarrow>
   \<exists>s'. choose_year env found s =
          (Inr (map_option (\<lambda>n. N (of_int n)) (int_of_str env line)), s')
        \<and> stdin s' = rest
        \<and> (int_of_str env line = None \<longrightarrow>
             last (out s') = Print ''Invalid year. Please enter a number.'' [])
        \<and> world s' = world s \<and> calls s' = calls s"
  by (cases found; cases "tl found"; cases "int_of_str env line")
     (auto simp: choose_year_def input_line_def Let_def)

lemma delete_checked_None: "delete_checked env title found None s = (Inr (), s)"
  by (simp add: delete_checked_def)

lemma delete_movie_calls:
  "calls (snd (delete_movie env year title s)) = calls s @ [DeleteItemCall year title ''ALL_OLD'']"
  by (auto simp: delete_movie_def Let_def called_def split: prod.splits sum.splits exn.splits)

lemma delete_checked_valid:
  "any_year_eq found year = Inr True \<Longrightarrow>
   calls (snd (delete_checked env title found (Some year) s)) =
     calls s @ [DeleteItemCall year title ''ALL_OLD'']"
  using delete_movie_calls [of env year title s]
  by (auto simp: delete_checked_def split: prod.splits sum.splits)

lemma delete_checked_invalid:
  "any_year_eq found year \<noteq> Inr True \<Longrightarrow>
   world (snd (delete_checked env title found (Some year) s)) = world s
   \<and> calls (snd (delete_checked env title found (Some year) s)) = calls s
   \<and> stdin (snd (delete_checked env title found (Some year) s)) = stdin s"
  by (auto simp: delete_checked_def split: sum.splits)

lemma delete_checked_no_match:
  "any_year_eq found year = Inr False \<Longrightarrow>
   delete_checked env title found (Some year) s =
     (Inr (),
      emit (Print ''No movie with title '{}' and year '{}' was found.''
              [Str title, Val year]) s)"
  by (simp add: delete_checked_def)

lemma delete_flow_lookup:
  assumes "stdin s = title # ins" and "scan_pages env (world s) (Some title) None ps"
  shows "delete_flow env s =
     (if matched ps = [] then Some (Inr (), looked_up title ins ps s)
      else
        Some (case choose_year env (matched ps) (looked_up title ins ps s) of
                (Inl e, s3) \<Rightarrow> (Inl e, s3)
              | (Inr year_to_delete, s3) \<Rightarrow>
                  delete_checked env title (matched ps) year_to_delete s3))"
proof -
  let ?s1 = "(emit (Print ''Enter the title of the movie to delete: '' [])
               (emit (Print ''--- Interactive Movie Deletion ---'' []) s))\<lparr>stdin := ins\<rparr>"
  from assms(2) have "scan_pages env (world ?s1) (Some title) None ps"
    by simp
  from find_movies_by_title_pages [OF this] assms(1) show ?thesis
    by (simp add: delete_flow_def input_line_def looked_up_def emit_def
        split: prod.splits sum.splits)
qed

lemma looked_up_frame [simp]:
  "world (looked_up title ins ps s) = world s"
  "calls (looked_up title ins ps s) = calls s @ scan_calls (Some title) None ps"
  "stdin (looked_up title ins ps s) = ins"
  by (simp_all add: looked_up_def)

lemma lower_no: "lower ''n'' \<noteq> ''y''" "lower [] \<noteq> ''y''"
  by (simp_all add: lower_def lower_char_def)

lemma lower_char_y: "lower_char c = CHR ''y'' \<longleftrightarrow> c = CHR ''y'' \<or> c = CHR ''Y''"
  by (auto simp: lower_char_def split: option.splits if_splits)

lemma lower_y: "lower confirm = ''y'' \<longleftrightarrow> confirm = ''y'' \<or> confirm = ''Y''"
  by (cases confirm; cases "tl confirm") (auto simp: lower_def lower_char_y)

lemma any_year_eq_single: "map_of m ''year'' = Some y \<Longrightarrow> any_year_eq [m] y = Inr True"
  by (simp add: py_eq_refl)

lemma print_menu_frame [simp]:
  "world (print_menu s) = world s" "calls (print_menu s) = calls s"
  "stdin (print_menu s) = stdin s"
  by (simp_all add: print_menu_def)

lemma delete_flow_invalid_year:
  assumes "stdin s = title # line # rest"
      and "scan_pages env (world s) (Some title) None ps"
      and "2 \<le> length (matched ps)"
      and "int_of_str env line = None"
  shows "\<exists>s'. delete_flow env s = Some (Inr (), s')
     \<and> stdin s' = rest \<and> world s' = world s
     \<and> calls s' = calls s @ scan_calls (Some title) None ps
     \<and> last (out s') = Print ''Invalid year. Please enter a number.'' []"
proof -
  let ?s2 = "looked_up title (line # rest) ps s"
  from assms(3) have ne: "matched ps \<noteq> []" by auto
  from choose_year_multi [OF assms(3), of ?s2 line rest env] assms(4)
  obtain s3 where cy: "choose_year env (matched ps) ?s2 = (Inr None, s3)"
    and fr: "stdin s3 = rest" "world s3 = world s"
      "calls s3 = calls s @ scan_calls (Some title) None ps"
      "last (out s3) = Print ''Invalid year. Please enter a number.'' []"
    by auto
  from delete_flow_lookup [OF assms(1,2)] ne cy
  have "delete_flow env s = Some (Inr (), s3)"
    by (simp add: delete_checked_None)
  with fr show ?thesis by blast
qed

lemma main_loop_delete:
  assumes "stdin s = ''4'' # ins"
      and "delete_flow env
             ((emit (Print ''Enter your choice (1-5): '' []) (print_menu s))\<lparr>stdin := ins\<rparr>) =
           Some (Inr (), s')"
  shows "main_loop env s = main_loop env s'"
  using assms by (subst main_loop.simps) (simp add: input_line_def)

lemma rating_loop_invalid:
  assumes "stdin s = line # rest" and "float_of_str env line = None"
  shows "rating_loop env s =
     rating_loop env
       (s\<lparr>stdin := rest,
          out := out s @ [Print ''Enter the new rating (e.g., 8.5): '' [],
                          Print ''Invalid rating. Please enter a number.'' []]\<rparr>)"
  using assms by (subst rating_loop.simps) (simp add: input_line_def emit_def)

lemma main_loop_exit:
  assumes "stdin s = ''5'' # ins"
  shows "\<exists>s'. main_loop env s = Some (Inr (), s') \<and> world s' = world s \<and> calls s' = calls s"
  using assms by (subst main_loop.simps) (simp add: input_line_def)

lemma delete_flow_single_match:
  assumes "stdin s = title # ins"
      and "scan_pages env (world s) (Some title) None ps"
      and "matched ps = [m]"
  shows "\<exists>r s'. delete_flow env s = Some (r, s')
     \<and> (\<forall>confirm rest. ins = confirm # rest \<and> (confirm = ''n'' \<or> confirm = []) \<longrightarrow>
           world s' = world s \<and> calls s' = calls s @ scan_calls (Some title) None ps)
     \<and> (calls s' \<noteq> calls s @ scan_calls (Some title) None ps \<or> world s' \<noteq> world s \<longrightarrow>
           (\<exists>confirm rest. ins = confirm # rest \<and> lower confirm = ''y''))
     \<and> (\<forall>confirm rest year t.
           ins = confirm # rest \<and> lower confirm = ''y''
           \<and> map_of m ''year'' = Some year \<and> year \<noteq> NULL \<and> map_of m ''title'' = Some t \<longrightarrow>
           calls s' = calls s @ scan_calls (Some title) None ps
                        @ [DeleteItemCall year title ''ALL_OLD''])
     \<and> (map_of m ''year'' = Some NULL \<longrightarrow>
           world s' = world s \<and> calls s' = calls s @ scan_calls (Some title) None ps)"
proof -
  let ?s2 = "looked_up title ins ps s"
  obtain r0 s3 where cy: "choose_year env [m] ?s2 = (r0, s3)"
    by (cases "choose_year env [m] ?s2")
  from choose_year_frame [OF cy]
  have fr: "world s3 = world s" "calls s3 = calls s @ scan_calls (Some title) None ps"
    by simp_all
  have flow: "delete_flow env s =
      Some (case r0 of
              Inl e \<Rightarrow> (Inl e, s3)
            | Inr year_to_delete \<Rightarrow> delete_checked env title [m] year_to_delete s3)"
    using delete_flow_lookup [OF assms(1,2)] assms(3) cy by (simp split: sum.splits)
  have quiet: ?thesis
    if res: "delete_flow env s = Some (r, s3)"
      and no: "\<And>confirm rest year t. ins = confirm # rest \<Longrightarrow> lower confirm = ''y'' \<Longrightarrow>
                 map_of m ''year'' = Some year \<Longrightarrow> year \<noteq> NULL \<Longrightarrow>
                 map_of m ''title'' = Some t \<Longrightarrow> False"
    for r
    using res fr no by (intro exI [of _ r] exI [of _ s3]) blast
  show ?thesis
  proof (cases r0)
    case (Inl e)
    show ?thesis
    proof (rule quiet)
      from flow Inl show "delete_flow env s = Some (Inl e, s3)" by simp
    next
      fix confirm rest year t
      assume "ins = confirm # rest" "lower confirm = ''y''"
        "map_of m ''year'' = Some year" "year \<noteq> NULL" "map_of m ''title'' = Some t"
      from choose_year_single_yes [of ?s2 confirm rest m t year env] this cy Inl
      show False by simp
    qed
  next
    case (Inr year_to_delete)
    show ?thesis
    proof (cases year_to_delete)
      case None
      show ?thesis
      proof (rule quiet)
        from flow Inr None show "delete_flow env s = Some (Inr (), s3)"
          by (simp add: delete_checked_None)
      next
        fix confirm rest year t
        assume "ins = confirm # rest" "lower confirm = ''y''"
          "map_of m ''year'' = Some year" "year \<noteq> NULL" "map_of m ''title'' = Some t"
        from choose_year_single_yes [of ?s2 confirm rest m t year env] this cy Inr None
        show False by simp
      qed
    next
      case (Some y)
      with cy Inr have "choose_year env [m] ?s2 = (Inr (Some y), s3)" by simp
      from choose_year_single_Some [OF this]
      obtain confirm rest where y: "map_of m ''year'' = Some y" and nn: "y \<noteq> NULL"
        and ins: "ins = confirm # rest" and yes: "lower confirm = ''y''"
        by auto
      obtain r s' where dc: "delete_checked env title [m] (Some y) s3 = (r, s')"
        by (cases "delete_checked env title [m] (Some y) s3")
      from delete_checked_valid [OF any_year_eq_single [OF y], of env title s3] dc fr
      have c: "calls s' = calls s @ scan_calls (Some title) None ps
                 @ [DeleteItemCall y title ''ALL_OLD'']"
        by simp
      from flow Inr Some dc have "delete_flow env s = Some (r, s')" by simp
      with c y nn ins yes lower_no show ?thesis
        by (intro exI [of _ r] exI [of _ s']) auto
    qed
  qed
qed

section \<open>The example table\<close>

lemma heat_pages_scan:
  "scan_pages table_env (world (initial three_movies [])) (Some ''Heat'') None heat_pages"
  by (simp add: table_env_def three_movies_def table_scan_def movie_def key_of_def
      heat_pages_def)

lemma matrix_page_fault:
  "scan_fault throttled_env (world (initial three_movies [])) (Some ''The Matrix'') None
     matrix_page (ClientError ''ProvisionedThroughputExceededException'' ''Rate exceeded'')"
  by (simp add: throttled_env_def table_env_def three_movies_def table_scan_def movie_def
      key_of_def matrix_page_def)

lemma matched_heat_pages: "matched heat_pages = []"
  by (simp add: matched_def heat_pages_def get_Items_def)

lemma matrix_pages_scan:
  "scan_pages (rejecting_env code message) (world (initial three_movies []))
     (Some ''The Matrix'') None matrix_pages"
  by (simp add: rejecting_env_def table_env_def three_movies_def table_scan_def movie_def
      key_of_def matrix_pages_def)

lemma matched_matrix_pages: "matched matrix_pages = [movie 1999 ''The Matrix'' (15/2)]"
  by (simp add: matched_def matrix_pages_def get_Items_def)

lemma x_pages_scan: "scan_pages table_env (world (initial x_movies ins)) (Some ''X'') None x_pages"
  by (simp add: table_env_def x_movies_def table_scan_def movie_def key_of_def x_pages_def)

lemma matched_x_pages: "matched x_pages = x_movies"
  by (simp add: matched_def x_pages_def get_Items_def x_movies_def)

lemma matrix_pages_table:
  "scan_pages table_env (world (initial three_movies ins)) (Some ''The Matrix'') None matrix_pages"
  by (simp add: table_env_def three_movies_def table_scan_def movie_def key_of_def
      matrix_pages_def)

lemma stdin_initial [simp]: "stdin (initial w ins) = ins"
  by (simp add: initial_def)

lemma calls_initial [simp]: "calls (initial w ins) = []"
  by (simp add: initial_def)

lemma x_scan_calls:
  "scan_calls (Some ''X'') None x_pages =
     [ScanCall (Some ''X'') None,
      ScanCall (Some ''X'') (Some [(''year'', N 0), (''title'', S ''X'')]),
      ScanCall (Some ''X'') (Some [(''year'', N 1999), (''title'', S ''X'')])]"
  by (simp add: x_pages_def)

lemma x_movies_years:
  "\<forall>m \<in> set (matched x_pages). \<exists>v. map_of m ''year'' = Some v"
  "(\<exists>m \<in> set (matched x_pages). \<exists>v. map_of m ''year'' = Some v \<and> py_eq v (N 2003))"
  "\<not> (\<exists>m \<in> set (matched x_pages). \<exists>v. map_of m ''year'' = Some v \<and> py_eq v (N 1987))"
  by (simp_all add: matched_x_pages x_movies_def movie_def py_eq_def)

lemma decimal_int_examples:
  "int_of_str table_env ''2003'' = Some 2003"
  "int_of_str table_env ''1987'' = Some 1987"
  "int_of_str table_env ''abc'' = None"
  "float_of_str table_env ''abc'' = None"
  "float_of_str table_env ''8.5'' = Some (17 / 2)"
  by (simp_all add: table_env_def decimal_int_def decimal_rat_def digit_val_def)

text \<open>
  Three movies titled \<^verbatim>\<open>X\<close> of the years 1987, 1999 and 2003 are all updated, and
  three updates are reported.
\<close>

lemma update_by_title_three_years:
  "map_option (\<lambda>(r, s'). (case r of Inr (Some responses) \<Rightarrow> length responses | _ \<Rightarrow> 0, world s'))
     (update_movie_rating_by_title table_env ''X'' 9
        (initial [movie 1987 ''X'' 6, movie 1999 ''X'' 7, movie 2003 ''X'' 8] [])) =
   Some (3, [movie 1987 ''X'' 9, movie 1999 ''X'' 9, movie 2003 ''X'' 9])"
  by code_simp

text \<open>
  A single match whose year is \<^verbatim>\<open>None\<close>: the answer \<^verbatim>\<open>y\<close> deletes nothing.
\<close>

lemma delete_flow_year_None:
  "map_option (\<lambda>(r, s'). (r, calls s', world s'))
     (delete_flow table_env (initial [[(''year'', NULL), (''title'', S ''Z'')]] [''Z'', ''y''])) =
   Some (Inr (), [ScanCall (Some ''Z'') None], [[(''year'', NULL), (''title'', S ''Z'')]])"
  by code_simp

section \<open>Claims\<close>

text \<open>
  Claim C1. When the scan of the table takes the pages \<open>ps\<close> (\<open>K = length ps\<close>, at least
  one), \<^verbatim>\<open>get_all_records\<close> makes exactly the \<open>K\<close> scan calls that follow the
  continuation keys from page to page, and returns the items of the pages concatenated in
  order: every item occurs in the result as often as in the pages together, so the merge
  adds no duplicate. When a scan call raises a \<^verbatim>\<open>ClientError\<close>, after any number of
  pages, it returns \<^verbatim>\<open>None\<close>.
\<close>

theorem get_all_records_pages:
  "(scan_pages env (world s) None None ps \<longrightarrow>
      get_all_records env s =
        Some (Inr (Some (matched ps)),
              s\<lparr>calls := calls s @ scan_calls None None ps,
                out := out s @ [Print ''Scanning the table for all records...'' [],
                                Print ''Found {} records.'' [Len (length (matched ps))]]\<rparr>)
      \<and> length (scan_calls None None ps) = length ps
      \<and> (\<forall>x. count_list (matched ps) x = sum_list (map (\<lambda>p. count_list (get_Items p) x) ps)))
   \<and> (scan_fault env (world s) None None ps (ClientError code message) \<longrightarrow>
      get_all_records env s =
        Some (Inr None,
              s\<lparr>calls := calls s @ fault_calls None None ps,
                out := out s @ [Print ''Scanning the table for all records...'' [],
                                Print ''An error occurred: {}'' [Str message]]\<rparr>)
      \<and> length (fault_calls None None ps) = Suc (length ps))"
proof (intro conjI impI allI)
  assume a: "scan_pages env (world s) None None ps"
  then have "scan_pages env (world (emit (Print ''Scanning the table for all records...'' []) s))
               None None ps"
    by simp
  from scan_all_pages [OF this] show "get_all_records env s =
        Some (Inr (Some (matched ps)),
              s\<lparr>calls := calls s @ scan_calls None None ps,
                out := out s @ [Print ''Scanning the table for all records...'' [],
                                Print ''Found {} records.'' [Len (length (matched ps))]]\<rparr>)"
    by (simp add: get_all_records_def emit_def)
next
  assume a: "scan_fault env (world s) None None ps (ClientError code message)"
  then have "scan_fault env (world (emit (Print ''Scanning the table for all records...'' []) s))
               None None ps (ClientError code message)"
    by simp
  from scan_all_fault [OF this] show "get_all_records env s =
        Some (Inr None,
              s\<lparr>calls := calls s @ fault_calls None None ps,
                out := out s @ [Print ''Scanning the table for all records...'' [],
                                Print ''An error occurred: {}'' [Str message]]\<rparr>)"
    by (simp add: get_all_records_def emit_def)
qed (simp_all add: length_scan_calls length_fault_calls matched_def count_list_concat comp_def)

theorem get_all_records_pages_witness:
  "scan_pages table_env (world (initial three_movies [])) None None three_pages
   \<and> get_all_records table_env (initial three_movies []) =
        Some (Inr (Some three_movies),
              \<lparr>world = three_movies,
               calls = [ScanCall None None,
                        ScanCall None (Some [(''year'', N 1999), (''title'', S ''The Matrix'')]),
                        ScanCall None (Some [(''year'', N 2003), (''title'', S ''Oldboy'')])],
               out = [Print ''Scanning the table for all records...'' [],
                      Print ''Found {} records.'' [Len 3]],
               stdin = []\<rparr>)
   \<and> scan_fault throttled_env (world (initial three_movies [])) None None (take 1 three_pages)
         (ClientError ''ProvisionedThroughputExceededException'' ''Rate exceeded'')
   \<and> get_all_records throttled_env (initial three_movies []) =
        Some (Inr None,
              \<lparr>world = three_movies,
               calls = [ScanCall None None,
                        ScanCall None (Some [(''year'', N 1999), (''title'', S ''The Matrix'')])],
               out = [Print ''Scanning the table for all records...'' [],
                      Print ''An error occurred: {}'' [Str ''Rate exceeded'']],
               stdin = []\<rparr>)"
proof -
  have p: "scan_pages table_env (world (initial three_movies [])) None None three_pages"
    by (simp add: table_env_def three_movies_def three_pages_def table_scan_def movie_def
        key_of_def)
  have f: "scan_fault throttled_env (world (initial three_movies [])) None None
             (take 1 three_pages)
             (ClientError ''ProvisionedThroughputExceededException'' ''Rate exceeded'')"
    by (simp add: throttled_env_def table_env_def three_movies_def three_pages_def
        table_scan_def movie_def key_of_def)
  from p get_all_records_pages [of table_env "initial three_movies []" three_pages]
  have 1: "get_all_records table_env (initial three_movies []) =
        Some (Inr (Some three_movies),
              \<lparr>world = three_movies,
               calls = [ScanCall None None,
                        ScanCall None (Some [(''year'', N 1999), (''title'', S ''The Matrix'')]),
                        ScanCall None (Some [(''year'', N 2003), (''title'', S ''Oldboy'')])],
               out = [Print ''Scanning the table for all records...'' [],
                      Print ''Found {} records.'' [Len 3]],
               stdin = []\<rparr>)"
    by (simp add: initial_def three_pages_def three_movies_def matched_def get_Items_def)
  from f get_all_records_pages [of throttled_env "initial three_movies []" "take 1 three_pages"
        "''ProvisionedThroughputExceededException''" "''Rate exceeded''"]
  have 2: "get_all_records throttled_env (initial three_movies []) =
        Some (Inr None,
              \<lparr>world = three_movies,
               calls = [ScanCall None None,
                        ScanCall None (Some [(''year'', N 1999), (''title'', S ''The Matrix'')])],
               out = [Print ''Scanning the table for all records...'' [],
                      Print ''An error occurred: {}'' [Str ''Rate exceeded'']],
               stdin = []\<rparr>)"
    by (simp add: initial_def three_pages_def three_movies_def)
  from p f 1 2 show ?thesis by blast
qed

text \<open>
  Claim C2, at an input where the code departs from it: three movies titled \<^verbatim>\<open>X\<close> of
  the distinct years 0, 1999 and 2003, in a table that accepts every update.
  \<^verbatim>\<open>if movie_year:\<close> is false for the year 0, so the movie of the year 0 is skipped
  with the warning that its year is missing, although it is there: two updates are made and
  two reported, and this movie keeps its rating.
\<close>

theorem update_by_title_skips_year_zero:
  "update_movie_rating_by_title table_env ''X'' 9 (initial x_movies []) =
     Some (Inr (Some [[(''Attributes'', M [(''info'', M [(''rating'', N 9)])]),
                       (''ResponseMetadata'', M [(''HTTPStatusCode'', N 200)])],
                      [(''Attributes'', M [(''info'', M [(''rating'', N 9)])]),
                       (''ResponseMetadata'', M [(''HTTPStatusCode'', N 200)])]]),
           \<lparr>world = [movie 0 ''X'' 5, movie 1999 ''X'' 9, movie 2003 ''X'' 9],
            calls = [ScanCall (Some ''X'') None,
                     ScanCall (Some ''X'') (Some [(''year'', N 0), (''title'', S ''X'')]),
                     ScanCall (Some ''X'') (Some [(''year'', N 1999), (''title'', S ''X'')]),
                     UpdateItemCall (N 1999) ''X'' ''set info.rating = :r'' 9 ''UPDATED_NEW'',
                     UpdateItemCall (N 2003) ''X'' ''set info.rating = :r'' 9 ''UPDATED_NEW''],
            out = [Print ''Attempting to update rating for movie(s) with title '{}' to {}...''
                     [Str ''X'', Flt 9],
                   Print ''Found {} movie(s) with title '{}'. Attempting to update...''
                     [Len 3, Str ''X''],
                   Print (''Warning: Movie with title '{}' found but 'year' attribute is ''
                          @ ''missing. Skipping update for this item.'') [Str ''X''],
                   Print ''Updating rating for '{}' ({}) to {}...''
                     [Str ''X'', Val (N 1999), Flt 9],
                   Print ''Update successful.'' [],
                   Print ''Updating rating for '{}' ({}) to {}...''
                     [Str ''X'', Val (N 2003), Flt 9],
                   Print ''Update successful.'' [],
                   Print ''Successfully updated {} movie(s) with title '{}'.''
                     [Len 2, Str ''X'']],
            stdin = []\<rparr>)"
  by code_simp

text \<open>
  Claim C3, as stated, fails: for a failed condition and for a throttled request alike,
  \<^verbatim>\<open>update_movie_rating\<close> returns \<^verbatim>\<open>None\<close>.
\<close>

theorem update_movie_rating_same_result:
  "fst (update_movie_rating
          (rejecting_env ''ConditionalCheckFailedException'' ''The conditional request failed'')
          (N 1999) ''Heat'' 9 (initial three_movies [])) = Inr None
   \<and> fst (update_movie_rating
          (rejecting_env ''ProvisionedThroughputExceededException'' ''Rate exceeded'')
          (N 1999) ''Heat'' 9 (initial three_movies [])) = Inr None"
  by (simp add: update_movie_rating_def rejecting_env_def table_env_def)

text \<open>
  Claim C3, amended. When \<^verbatim>\<open>update_item\<close> raises a \<^verbatim>\<open>ClientError\<close>,
  \<^verbatim>\<open>update_movie_rating\<close> returns \<^verbatim>\<open>None\<close> whatever the error code; it prints the
  not-found message when the code is \<^verbatim>\<open>ConditionalCheckFailedException\<close> and the
  generic message with the text of the store otherwise, and these two messages differ. The
  two faults are told apart by what is printed, not by what is returned.
\<close>

theorem update_movie_rating_faults:
  assumes "update_item env (world s) year title ''set info.rating = :r''
             (Decimal_of_float env new_rating) ''UPDATED_NEW'' = (Inl (ClientError code message), w')"
  shows "update_movie_rating env year title new_rating s =
           (Inr None,
            s\<lparr>world := w',
              calls := calls s @ [UpdateItemCall year title ''set info.rating = :r''
                                    (Decimal_of_float env new_rating) ''UPDATED_NEW''],
              out := out s @
                [Print ''Updating rating for '{}' ({}) to {}...''
                   [Str title, Val year, Flt new_rating],
                 if code = ''ConditionalCheckFailedException''
                 then Print ''Error: A movie with title '{}' ({}) was not found.''
                        [Str title, Val year]
                 else Print ''An error occurred while updating: {}'' [Str message]]\<rparr>)
         \<and> Print ''Error: A movie with title '{}' ({}) was not found.'' [Str title, Val year]
             \<noteq> (Print ''An error occurred while updating: {}'' [Str message] :: 'f msg)"
  using assms by (simp add: update_movie_rating_def emit_def called_def)

theorem update_movie_rating_faults_witness:
  "update_movie_rating
     (rejecting_env ''ConditionalCheckFailedException'' ''The conditional request failed'')
     (N 1999) ''Heat'' 9 (initial three_movies []) =
     (Inr None,
      \<lparr>world = three_movies,
       calls = [UpdateItemCall (N 1999) ''Heat'' ''set info.rating = :r'' 9 ''UPDATED_NEW''],
       out = [Print ''Updating rating for '{}' ({}) to {}...''
                [Str ''Heat'', Val (N 1999), Flt 9],
              Print ''Error: A movie with title '{}' ({}) was not found.''
                [Str ''Heat'', Val (N 1999)]],
       stdin = []\<rparr>)"
  using update_movie_rating_faults
    [of "rejecting_env ''ConditionalCheckFailedException'' ''The conditional request failed''"
        "initial three_movies []" "N 1999" "''Heat''" 9
        "''ConditionalCheckFailedException''" "''The conditional request failed''" three_movies]
  by (simp add: rejecting_env_def table_env_def initial_def)

text \<open>
  Claim C4, as stated, fails: \<^verbatim>\<open>find_movies_by_title\<close> returns the empty list when no
  movie has the title, and the empty list again when a scan call is throttled (here after
  a first page that held a match).
\<close>

theorem find_movies_by_title_same_result:
  "map_option fst (find_movies_by_title table_env ''Heat'' (initial three_movies [])) =
     Some (Inr [])
   \<and> map_option fst (find_movies_by_title throttled_env ''The Matrix'' (initial three_movies [])) =
     Some (Inr [])"
  by (simp add: find_movies_by_title_pages [OF heat_pages_scan]
      find_movies_by_title_fault [OF matrix_page_fault] matched_heat_pages)

text \<open>
  Claim C4, amended. When the scan is answered by the pages \<open>ps\<close>,
  \<^verbatim>\<open>find_movies_by_title\<close> returns their items, the empty list when there is none,
  with the message that tells how many were found. When a scan call raises a
  \<^verbatim>\<open>ClientError\<close>, after any number of pages, it prints the error and returns the empty
  list as well, so only the message tells a fault from no match.
\<close>

theorem find_movies_by_title_empty_twice:
  "(scan_pages env (world s) (Some title) None ps \<longrightarrow>
      find_movies_by_title env title s =
        Some (Inr (matched ps),
              s\<lparr>calls := calls s @ scan_calls (Some title) None ps,
                out := out s @
                  [Print ''Searching for movies with title '{}'...'' [Str title],
                   if matched ps = [] then Print ''No movie found with title '{}'.'' [Str title]
                   else Print ''Found {} movie(s) with title '{}'.''
                          [Len (length (matched ps)), Str title]]\<rparr>))
   \<and> (scan_fault env (world s) (Some title) None ps (ClientError code message) \<longrightarrow>
      find_movies_by_title env title s =
        Some (Inr [],
              s\<lparr>calls := calls s @ fault_calls (Some title) None ps,
                out := out s @
                  [Print ''Searching for movies with title '{}'...'' [Str title],
                   Print ''An error occurred while searching for movies by title: {}''
                     [Str message]]\<rparr>))"
  using find_movies_by_title_pages find_movies_by_title_fault by blast

theorem find_movies_by_title_empty_twice_witness:
  "scan_pages table_env (world (initial three_movies [])) (Some ''Heat'') None heat_pages
   \<and> map_option fst (find_movies_by_title table_env ''Heat'' (initial three_movies [])) =
       Some (Inr [])
   \<and> scan_fault throttled_env (world (initial three_movies [])) (Some ''The Matrix'') None
       matrix_page (ClientError ''ProvisionedThroughputExceededException'' ''Rate exceeded'')
   \<and> map_option fst (find_movies_by_title throttled_env ''The Matrix'' (initial three_movies [])) =
       Some (Inr [])"
proof -
  from heat_pages_scan find_movies_by_title_empty_twice
    [of table_env "initial three_movies []" "''Heat''" heat_pages "''c''" "''m''"]
  have 3: "map_option fst (find_movies_by_title table_env ''Heat'' (initial three_movies [])) =
       Some (Inr [])"
    by (simp add: matched_heat_pages)
  from matrix_page_fault find_movies_by_title_empty_twice
    [of throttled_env "initial three_movies []" "''The Matrix''" matrix_page
        "''ProvisionedThroughputExceededException''" "''Rate exceeded''"]
  have 4: "map_option fst
        (find_movies_by_title throttled_env ''The Matrix'' (initial three_movies [])) =
       Some (Inr [])"
    by simp
  from heat_pages_scan matrix_page_fault 3 4 show ?thesis by blast
qed

text \<open>
  Claim C5. In the delete flow, when the lookup of the title finds exactly one movie \<open>m\<close>:
  on the answer \<^verbatim>\<open>n\<close> or an empty answer no call but the scan calls of the lookup is
  made and the store is as before; if any other call is made, or the store changes, then a
  confirmation was read and it is \<^verbatim>\<open>y\<close> or \<^verbatim>\<open>Y\<close>; and on such a confirmation, the
  movie having a title and a year that is not \<^verbatim>\<open>None\<close>, exactly one
  \<^verbatim>\<open>delete_item\<close> call follows the lookup, for the year of \<open>m\<close> and the title that was
  entered. When the year of \<open>m\<close> is \<^verbatim>\<open>None\<close>, no call follows the lookup and the
  store is as before, whatever the answer.
\<close>

theorem delete_single_match_needs_confirmation:
  assumes "stdin s = title # ins"
      and "scan_pages env (world s) (Some title) None ps"
      and "matched ps = [m]"
  shows "\<exists>r s'. delete_flow env s = Some (r, s')
     \<and> (\<forall>confirm rest. ins = confirm # rest \<and> (confirm = ''n'' \<or> confirm = []) \<longrightarrow>
           world s' = world s \<and> calls s' = calls s @ scan_calls (Some title) None ps)
     \<and> (calls s' \<noteq> calls s @ scan_calls (Some title) None ps \<or> world s' \<noteq> world s \<longrightarrow>
           (\<exists>confirm rest. ins = confirm # rest \<and> (confirm = ''y'' \<or> confirm = ''Y'')))
     \<and> (\<forall>confirm rest year t.
           ins = confirm # rest \<and> (confirm = ''y'' \<or> confirm = ''Y'')
           \<and> map_of m ''year'' = Some year \<and> year \<noteq> NULL \<and> map_of m ''title'' = Some t \<longrightarrow>
           calls s' = calls s @ scan_calls (Some title) None ps
                        @ [DeleteItemCall year title ''ALL_OLD''])
     \<and> (map_of m ''year'' = Some NULL \<longrightarrow>
           world s' = world s \<and> calls s' = calls s @ scan_calls (Some title) None ps)"
  using delete_flow_single_match [OF assms] by (simp only: lower_y)

theorem delete_single_match_needs_confirmation_witness:
  "stdin (initial three_movies [''The Matrix'', ''n'']) = ''The Matrix'' # [''n'']
   \<and> scan_pages table_env (world (initial three_movies [''The Matrix'', ''n'']))
         (Some ''The Matrix'') None matrix_pages
   \<and> matched matrix_pages = [movie 1999 ''The Matrix'' (15/2)]
   \<and> map_option (\<lambda>(r, s'). (world s', calls s'))
         (delete_flow table_env (initial three_movies [''The Matrix'', ''n''])) =
       Some (three_movies,
             [ScanCall (Some ''The Matrix'') None,
              ScanCall (Some ''The Matrix'')
                (Some [(''year'', N 1999), (''title'', S ''The Matrix'')]),
              ScanCall (Some ''The Matrix'')
                (Some [(''year'', N 2003), (''title'', S ''Oldboy'')])])
   \<and> map_option (\<lambda>(r, s'). calls s')
         (delete_flow table_env (initial three_movies [''The Matrix'', ''Y''])) =
       Some [ScanCall (Some ''The Matrix'') None,
             ScanCall (Some ''The Matrix'')
               (Some [(''year'', N 1999), (''title'', S ''The Matrix'')]),
             ScanCall (Some ''The Matrix'')
               (Some [(''year'', N 2003), (''title'', S ''Oldboy'')]),
             DeleteItemCall (N 1999) ''The Matrix'' ''ALL_OLD'']"
proof -
  have sc: "scan_calls (Some ''The Matrix'') None matrix_pages =
      [ScanCall (Some ''The Matrix'') None,
       ScanCall (Some ''The Matrix'') (Some [(''year'', N 1999), (''title'', S ''The Matrix'')]),
       ScanCall (Some ''The Matrix'') (Some [(''year'', N 2003), (''title'', S ''Oldboy'')])]"
    by (simp add: matrix_pages_def)
  have m: "map_of (movie 1999 ''The Matrix'' (15/2)) ''year'' = Some (N 1999)"
    "map_of (movie 1999 ''The Matrix'' (15/2)) ''title'' = Some (S ''The Matrix'')"
    by (simp_all add: movie_def)
  from delete_single_match_needs_confirmation
    [of "initial three_movies [''The Matrix'', ''n'']" "''The Matrix''" "[''n'']" table_env
        matrix_pages "movie 1999 ''The Matrix'' (15/2)",
     OF _ matrix_pages_table matched_matrix_pages]
  have 1: "map_option (\<lambda>(r, s'). (world s', calls s'))
         (delete_flow table_env (initial three_movies [''The Matrix'', ''n''])) =
       Some (three_movies,
             [ScanCall (Some ''The Matrix'') None,
              ScanCall (Some ''The Matrix'')
                (Some [(''year'', N 1999), (''title'', S ''The Matrix'')]),
              ScanCall (Some ''The Matrix'')
                (Some [(''year'', N 2003), (''title'', S ''Oldboy'')])])"
    by (auto simp: sc)
  from delete_single_match_needs_confirmation
    [of "initial three_movies [''The Matrix'', ''Y'']" "''The Matrix''" "[''Y'']" table_env
        matrix_pages "movie 1999 ''The Matrix'' (15/2)",
     OF _ matrix_pages_table matched_matrix_pages] m
  have 2: "map_option (\<lambda>(r, s'). calls s')
         (delete_flow table_env (initial three_movies [''The Matrix'', ''Y''])) =
       Some [ScanCall (Some ''The Matrix'') None,
             ScanCall (Some ''The Matrix'')
               (Some [(''year'', N 1999), (''title'', S ''The Matrix'')]),
             ScanCall (Some ''The Matrix'')
               (Some [(''year'', N 2003), (''title'', S ''Oldboy'')]),
             DeleteItemCall (N 1999) ''The Matrix'' ''ALL_OLD'']"
    by (auto simp: sc)
  from 1 2 matrix_pages_table matched_matrix_pages show ?thesis by simp
qed

text \<open>
  Claim C6. In the delete flow, when the lookup finds several movies and the line read for
  the year is the integer \<open>n\<close>: either no call is made after the lookup (and the store is
  as before) or exactly one \<^verbatim>\<open>delete_item\<close> call, whose key is the year \<open>n\<close> and the
  title as the user entered it (no title of a movie found is used); the call is made
  only if the year of some movie found equals \<open>n\<close>; and, every movie found having a year,
  it is made if some year equals \<open>n\<close>, and otherwise the flow prints that no movie with
  this title and year was found and deletes nothing.
\<close>

theorem delete_multi_match_year:
  assumes "stdin s = title # line # rest"
      and "scan_pages env (world s) (Some title) None ps"
      and "2 \<le> length (matched ps)"
      and "int_of_str env line = Some n"
  shows "\<exists>r s'. delete_flow env s = Some (r, s')
     \<and> (calls s' = calls s @ scan_calls (Some title) None ps \<and> world s' = world s
        \<or> calls s' = calls s @ scan_calls (Some title) None ps
                        @ [DeleteItemCall (N (of_int n)) title ''ALL_OLD''])
     \<and> (calls s' \<noteq> calls s @ scan_calls (Some title) None ps \<longrightarrow>
           (\<exists>m \<in> set (matched ps). \<exists>v. map_of m ''year'' = Some v \<and> py_eq v (N (of_int n))))
     \<and> ((\<forall>m \<in> set (matched ps). \<exists>v. map_of m ''year'' = Some v) \<longrightarrow>
           (if \<exists>m \<in> set (matched ps). \<exists>v. map_of m ''year'' = Some v \<and> py_eq v (N (of_int n))
            then calls s' = calls s @ scan_calls (Some title) None ps
                             @ [DeleteItemCall (N (of_int n)) title ''ALL_OLD'']
            else r = Inr ()
               \<and> calls s' = calls s @ scan_calls (Some title) None ps
               \<and> world s' = world s
               \<and> last (out s') =
                   Print ''No movie with title '{}' and year '{}' was found.''
                     [Str title, Val (N (of_int n))]))"
proof -
  let ?s2 = "looked_up title (line # rest) ps s"
  let ?y = "N (of_int n)"
  let ?found = "matched ps"
  from assms(3) have ne: "?found \<noteq> []" by auto
  from choose_year_multi [OF assms(3), of ?s2 line rest env] assms(4)
  obtain s3 where cy: "choose_year env ?found ?s2 = (Inr (Some ?y), s3)"
    and fr: "world s3 = world s" "calls s3 = calls s @ scan_calls (Some title) None ps"
    by auto
  obtain r s' where dc: "delete_checked env title ?found (Some ?y) s3 = (r, s')"
    by (cases "delete_checked env title ?found (Some ?y) s3")
  from delete_flow_lookup [OF assms(1,2)] ne cy dc
  have flow: "delete_flow env s = Some (r, s')" by simp
  show ?thesis
  proof (cases "any_year_eq ?found ?y = Inr True")
    case True
    from delete_checked_valid [OF True, of env title s3] dc fr
    have c: "calls s' = calls s @ scan_calls (Some title) None ps
               @ [DeleteItemCall ?y title ''ALL_OLD'']"
      by simp
    from any_year_eq_True [OF True]
    have ex: "\<exists>m \<in> set ?found. \<exists>v. map_of m ''year'' = Some v \<and> py_eq v ?y" .
    from flow c ex show ?thesis
      by (intro exI [of _ r] exI [of _ s']) simp
  next
    case False
    from delete_checked_invalid [OF False, of env title s3] dc fr
    have c: "calls s' = calls s @ scan_calls (Some title) None ps" "world s' = world s"
      by simp_all
    have rep: "r = Inr () \<and> last (out s') =
        Print ''No movie with title '{}' and year '{}' was found.'' [Str title, Val ?y]"
      and none: "\<not> (\<exists>m \<in> set ?found. \<exists>v. map_of m ''year'' = Some v \<and> py_eq v ?y)"
      if "\<forall>m \<in> set ?found. \<exists>v. map_of m ''year'' = Some v"
    proof -
      from any_year_eq_all_years [OF that, of ?y] False
      have f: "any_year_eq ?found ?y = Inr False"
        and "\<not> (\<exists>m \<in> set ?found. \<exists>v. map_of m ''year'' = Some v \<and> py_eq v ?y)"
        by auto
      then show "\<not> (\<exists>m \<in> set ?found. \<exists>v. map_of m ''year'' = Some v \<and> py_eq v ?y)"
        by simp
      from delete_checked_no_match [OF f, of env title s3] dc
      show "r = Inr () \<and> last (out s') =
        Print ''No movie with title '{}' and year '{}' was found.'' [Str title, Val ?y]"
        by auto
    qed
    have last_part: "(\<forall>m \<in> set ?found. \<exists>v. map_of m ''year'' = Some v) \<longrightarrow>
           (if \<exists>m \<in> set ?found. \<exists>v. map_of m ''year'' = Some v \<and> py_eq v ?y
            then calls s' = calls s @ scan_calls (Some title) None ps
                             @ [DeleteItemCall ?y title ''ALL_OLD'']
            else r = Inr ()
               \<and> calls s' = calls s @ scan_calls (Some title) None ps
               \<and> world s' = world s
               \<and> last (out s') =
                   Print ''No movie with title '{}' and year '{}' was found.''
                     [Str title, Val ?y])"
    proof
      assume all: "\<forall>m \<in> set ?found. \<exists>v. map_of m ''year'' = Some v"
      from rep [OF all] none [OF all] c
      show "if \<exists>m \<in> set ?found. \<exists>v. map_of m ''year'' = Some v \<and> py_eq v ?y
            then calls s' = calls s @ scan_calls (Some title) None ps
                             @ [DeleteItemCall ?y title ''ALL_OLD'']
            else r = Inr ()
               \<and> calls s' = calls s @ scan_calls (Some title) None ps
               \<and> world s' = world s
               \<and> last (out s') =
                   Print ''No movie with title '{}' and year '{}' was found.''
                     [Str title, Val ?y]"
        by simp
    qed
    from flow c last_part show ?thesis
      by (intro exI [of _ r] exI [of _ s']) simp
  qed
qed

theorem delete_multi_match_year_witness:
  "stdin (initial x_movies [''X'', ''2003'']) = ''X'' # ''2003'' # []
   \<and> scan_pages table_env (world (initial x_movies [''X'', ''2003''])) (Some ''X'') None x_pages
   \<and> 2 \<le> length (matched x_pages)
   \<and> int_of_str table_env ''2003'' = Some 2003
   \<and> map_option (\<lambda>(r, s'). calls s') (delete_flow table_env (initial x_movies [''X'', ''2003''])) =
       Some [ScanCall (Some ''X'') None,
             ScanCall (Some ''X'') (Some [(''year'', N 0), (''title'', S ''X'')]),
             ScanCall (Some ''X'') (Some [(''year'', N 1999), (''title'', S ''X'')]),
             DeleteItemCall (N 2003) ''X'' ''ALL_OLD'']
   \<and> int_of_str table_env ''1987'' = Some 1987
   \<and> map_option (\<lambda>(r, s'). (r, calls s', world s', last (out s')))
         (delete_flow table_env (initial x_movies [''X'', ''1987''])) =
       Some (Inr (),
             [ScanCall (Some ''X'') None,
              ScanCall (Some ''X'') (Some [(''year'', N 0), (''title'', S ''X'')]),
              ScanCall (Some ''X'') (Some [(''year'', N 1999), (''title'', S ''X'')])],
             x_movies,
             Print ''No movie with title '{}' and year '{}' was found.''
               [Str ''X'', Val (N 1987)])"
proof -
  have len: "2 \<le> length (matched x_pages)"
    by (simp add: matched_x_pages x_movies_def)
  from delete_multi_match_year
    [of "initial x_movies [''X'', ''2003'']" "''X''" "''2003''" "[]" table_env x_pages 2003,
     OF _ x_pages_scan len decimal_int_examples(1)] x_movies_years
  have 1: "map_option (\<lambda>(r, s'). calls s')
       (delete_flow table_env (initial x_movies [''X'', ''2003''])) =
       Some [ScanCall (Some ''X'') None,
             ScanCall (Some ''X'') (Some [(''year'', N 0), (''title'', S ''X'')]),
             ScanCall (Some ''X'') (Some [(''year'', N 1999), (''title'', S ''X'')]),
             DeleteItemCall (N 2003) ''X'' ''ALL_OLD'']"
    by (auto simp: x_scan_calls)
  from delete_multi_match_year
    [of "initial x_movies [''X'', ''1987'']" "''X''" "''1987''" "[]" table_env x_pages 1987,
     OF _ x_pages_scan len decimal_int_examples(2)] x_movies_years
  have 2: "map_option (\<lambda>(r, s'). (r, calls s', world s', last (out s')))
         (delete_flow table_env (initial x_movies [''X'', ''1987''])) =
       Some (Inr (),
             [ScanCall (Some ''X'') None,
              ScanCall (Some ''X'') (Some [(''year'', N 0), (''title'', S ''X'')]),
              ScanCall (Some ''X'') (Some [(''year'', N 1999), (''title'', S ''X'')])],
             x_movies,
             Print ''No movie with title '{}' and year '{}' was found.''
               [Str ''X'', Val (N 1987)])"
    by (auto simp: x_scan_calls)
  from 1 2 len x_pages_scan decimal_int_examples show ?thesis by simp
qed

text \<open>
  Claim C7. \<^verbatim>\<open>delete_movie\<close> makes one \<^verbatim>\<open>delete_item\<close> call for the key, asking
  with \<^verbatim>\<open>ReturnValues='ALL_OLD'\<close> for the content of the deleted item. When the store
  answers, it returns the response, and when the response has no \<^verbatim>\<open>Attributes\<close> (no
  item had this key) it prints that the movie was not found. It returns \<^verbatim>\<open>None\<close>
  exactly when the store raised a \<^verbatim>\<open>ClientError\<close>.
\<close>

theorem delete_movie_result:
  assumes "delete_item env (world s) year title ''ALL_OLD'' = (res, w')"
  shows "\<exists>r s'. delete_movie env year title s = (r, s')
     \<and> calls s' = calls s @ [DeleteItemCall year title ''ALL_OLD'']
     \<and> world s' = w'
     \<and> (\<forall>response. res = Inr response \<longrightarrow>
           r = Inr (Some response)
           \<and> out s' = out s @
               [Print ''Deleting movie '{}' ({})...'' [Str title, Val year],
                if map_of response ''Attributes'' = None
                then Print ''Movie '{}' ({}) not found. Nothing to delete.'' [Str title, Val year]
                else Print ''Deletion successful.'' []])
     \<and> (r = Inr None \<longleftrightarrow> (\<exists>code message. res = Inl (ClientError code message)))"
proof (cases res)
  case (Inr response)
  with assms show ?thesis
    by (simp add: delete_movie_def emit_def called_def)
next
  case (Inl e)
  with assms show ?thesis
    by (cases e) (simp_all add: delete_movie_def emit_def called_def)
qed

theorem delete_movie_result_witness:
  "delete_item table_env (world (initial three_movies [])) (N 1999) ''Heat'' ''ALL_OLD'' =
     (Inr [(''ResponseMetadata'', M [(''HTTPStatusCode'', N 200)])], three_movies)
   \<and> fst (delete_movie table_env (N 1999) ''Heat'' (initial three_movies [])) =
       Inr (Some [(''ResponseMetadata'', M [(''HTTPStatusCode'', N 200)])])
   \<and> calls (snd (delete_movie table_env (N 1999) ''Heat'' (initial three_movies []))) =
       [DeleteItemCall (N 1999) ''Heat'' ''ALL_OLD'']
   \<and> out (snd (delete_movie table_env (N 1999) ''Heat'' (initial three_movies []))) =
       [Print ''Deleting movie '{}' ({})...'' [Str ''Heat'', Val (N 1999)],
        Print ''Movie '{}' ({}) not found. Nothing to delete.'' [Str ''Heat'', Val (N 1999)]]"
proof -
  have h: "delete_item table_env (world (initial three_movies [])) (N 1999) ''Heat'' ''ALL_OLD'' =
     (Inr [(''ResponseMetadata'', M [(''HTTPStatusCode'', N 200)])], three_movies)"
    by (simp add: table_env_def table_delete_def three_movies_def movie_def has_key_def)
  from delete_movie_result [OF h] h show ?thesis
    by (auto simp: initial_def)
qed

text \<open>
  Claim C8, as stated, fails: three movies have the title \<^verbatim>\<open>X\<close>, and the year entered
  is \<^verbatim>\<open>abc\<close>. The delete flow prints that the year is invalid and ends, leaving the
  next line (\<^verbatim>\<open>1999\<close>) to the menu: the year is not asked for again.
\<close>

theorem delete_flow_invalid_year_returns:
  "map_option (\<lambda>(r, s'). (r, stdin s', last (out s'), calls s', world s'))
     (delete_flow table_env (initial x_movies [''X'', ''abc'', ''1999''])) =
   Some (Inr (), [''1999''], Print ''Invalid year. Please enter a number.'' [],
         [ScanCall (Some ''X'') None,
          ScanCall (Some ''X'') (Some [(''year'', N 0), (''title'', S ''X'')]),
          ScanCall (Some ''X'') (Some [(''year'', N 1999), (''title'', S ''X'')])],
         x_movies)"
  by code_simp

text \<open>
  Claim C8, amended. In the update flow, a line that \<^verbatim>\<open>float\<close> rejects is reported and
  the rating loop goes on, prompting again and reading the next line as the rating. In the
  delete flow with several matches, a line that \<^verbatim>\<open>int\<close> rejects is reported and the
  flow returns to the menu: the menu loop goes on with the rest of the input, after the scan
  calls of the lookup only and with the store as before; the year is not asked for again.
\<close>

theorem invalid_number_handling:
  "(stdin s = line # rest \<and> float_of_str env line = None \<longrightarrow>
      rating_loop env s =
        rating_loop env
          (s\<lparr>stdin := rest,
             out := out s @ [Print ''Enter the new rating (e.g., 8.5): '' [],
                             Print ''Invalid rating. Please enter a number.'' []]\<rparr>))
   \<and> (stdin s = ''4'' # title # line # rest
        \<and> scan_pages env (world s) (Some title) None ps \<and> 2 \<le> length (matched ps)
        \<and> int_of_str env line = None \<longrightarrow>
      (\<exists>s'. main_loop env s = main_loop env s'
          \<and> stdin s' = rest \<and> world s' = world s
          \<and> calls s' = calls s @ scan_calls (Some title) None ps
          \<and> last (out s') = Print ''Invalid year. Please enter a number.'' []))"
proof (intro conjI impI)
  assume "stdin s = line # rest \<and> float_of_str env line = None"
  then show "rating_loop env s =
        rating_loop env
          (s\<lparr>stdin := rest,
             out := out s @ [Print ''Enter the new rating (e.g., 8.5): '' [],
                             Print ''Invalid rating. Please enter a number.'' []]\<rparr>)"
    using rating_loop_invalid by blast
next
  let ?s1 = "(emit (Print ''Enter your choice (1-5): '' []) (print_menu s))
               \<lparr>stdin := title # line # rest\<rparr>"
  assume a: "stdin s = ''4'' # title # line # rest
        \<and> scan_pages env (world s) (Some title) None ps \<and> 2 \<le> length (matched ps)
        \<and> int_of_str env line = None"
  then have "stdin ?s1 = title # line # rest"
    and "scan_pages env (world ?s1) (Some title) None ps"
    by simp_all
  from delete_flow_invalid_year [OF this] a
  obtain s' where d: "delete_flow env ?s1 = Some (Inr (), s')"
    and fr: "stdin s' = rest" "world s' = world s"
      "calls s' = calls s @ scan_calls (Some title) None ps"
      "last (out s') = Print ''Invalid year. Please enter a number.'' []"
    by auto
  from a main_loop_delete [OF _ d] have "main_loop env s = main_loop env s'"
    by simp
  with fr show "\<exists>s'. main_loop env s = main_loop env s'
          \<and> stdin s' = rest \<and> world s' = world s
          \<and> calls s' = calls s @ scan_calls (Some title) None ps
          \<and> last (out s') = Print ''Invalid year. Please enter a number.'' []"
    by blast
qed

theorem invalid_number_handling_witness:
  "stdin (initial x_movies [''abc'', ''8.5'']) = ''abc'' # [''8.5'']
   \<and> float_of_str table_env ''abc'' = None
   \<and> rating_loop table_env (initial x_movies [''abc'', ''8.5'']) =
       (Inr (17 / 2),
        \<lparr>world = x_movies, calls = [],
         out = [Print ''Enter the new rating (e.g., 8.5): '' [],
                Print ''Invalid rating. Please enter a number.'' [],
                Print ''Enter the new rating (e.g., 8.5): '' []],
         stdin = []\<rparr>)
   \<and> stdin (initial x_movies [''4'', ''X'', ''abc'', ''5'']) = ''4'' # ''X'' # ''abc'' # [''5'']
   \<and> scan_pages table_env (world (initial x_movies [''4'', ''X'', ''abc'', ''5'']))
         (Some ''X'') None x_pages
   \<and> 2 \<le> length (matched x_pages)
   \<and> int_of_str table_env ''abc'' = None
   \<and> map_option (\<lambda>(r, s'). (r, world s', calls s'))
         (main_loop table_env (initial x_movies [''4'', ''X'', ''abc'', ''5''])) =
       Some (Inr (), x_movies,
             [ScanCall (Some ''X'') None,
              ScanCall (Some ''X'') (Some [(''year'', N 0), (''title'', S ''X'')]),
              ScanCall (Some ''X'') (Some [(''year'', N 1999), (''title'', S ''X'')])])"
proof -
  have len: "2 \<le> length (matched x_pages)"
    by (simp add: matched_x_pages x_movies_def)
  have "rating_loop table_env
          (initial x_movies [''abc'', ''8.5'']
           \<lparr>stdin := [''8.5''],
             out := out (initial x_movies [''abc'', ''8.5'']) @
               [Print ''Enter the new rating (e.g., 8.5): '' [],
                Print ''Invalid rating. Please enter a number.'' []]\<rparr>) =
       (Inr (17 / 2),
        \<lparr>world = x_movies, calls = [],
         out = [Print ''Enter the new rating (e.g., 8.5): '' [],
                Print ''Invalid rating. Please enter a number.'' [],
                Print ''Enter the new rating (e.g., 8.5): '' []],
         stdin = []\<rparr>)"
    by (subst rating_loop.simps)
       (simp add: input_line_def emit_def initial_def decimal_int_examples)
  with invalid_number_handling
    [of "initial x_movies [''abc'', ''8.5'']" "''abc''" "[''8.5'']" table_env]
    decimal_int_examples
  have 1: "rating_loop table_env (initial x_movies [''abc'', ''8.5'']) =
       (Inr (17 / 2),
        \<lparr>world = x_movies, calls = [],
         out = [Print ''Enter the new rating (e.g., 8.5): '' [],
                Print ''Invalid rating. Please enter a number.'' [],
                Print ''Enter the new rating (e.g., 8.5): '' []],
         stdin = []\<rparr>)"
    by simp
  from invalid_number_handling
    [of "initial x_movies [''4'', ''X'', ''abc'', ''5'']" "''abc''" "[''5'']" table_env
        "''X''" x_pages]
    x_pages_scan len decimal_int_examples
  obtain s' where "main_loop table_env (initial x_movies [''4'', ''X'', ''abc'', ''5'']) =
      main_loop table_env s'"
    and fr: "stdin s' = [''5'']" "world s' = x_movies"
      "calls s' = scan_calls (Some ''X'') None x_pages"
    by auto
  with main_loop_exit [of s' "[]" table_env]
  have 2: "map_option (\<lambda>(r, s'). (r, world s', calls s'))
         (main_loop table_env (initial x_movies [''4'', ''X'', ''abc'', ''5''])) =
       Some (Inr (), x_movies,
             [ScanCall (Some ''X'') None,
              ScanCall (Some ''X'') (Some [(''year'', N 0), (''title'', S ''X'')]),
              ScanCall (Some ''X'') (Some [(''year'', N 1999), (''title'', S ''X'')])])"
    by (auto simp: x_scan_calls)
  from 1 2 len x_pages_scan decimal_int_examples show ?thesis by simp
qed

text \<open>
  Claim C10. \<^verbatim>\<open>update_movie_rating_by_title\<close> returns \<^verbatim>\<open>None\<close> in three
  situations: when the scan finds no movie with the title, when a scan call raises a
  \<^verbatim>\<open>ClientError\<close>, and when movies are found and each of them is skipped or its update
  raises a \<^verbatim>\<open>ClientError\<close>.
\<close>

theorem update_by_title_none_thrice:
  "(scan_pages env (world s) (Some title) None ps \<and> matched ps = [] \<longrightarrow>
      map_option fst (update_movie_rating_by_title env title new_rating s) = Some (Inr None))
   \<and> (scan_fault env (world s) (Some title) None ps (ClientError code message) \<longrightarrow>
      map_option fst (update_movie_rating_by_title env title new_rating s) = Some (Inr None))
   \<and> (scan_pages env (world s) (Some title) None ps \<and> matched ps \<noteq> []
        \<and> (\<forall>item \<in> set (matched ps). \<forall>w. skipped_or_fails env w title new_rating item) \<longrightarrow>
      map_option fst (update_movie_rating_by_title env title new_rating s) = Some (Inr None))"
proof (intro conjI impI)
  assume a: "scan_pages env (world s) (Some title) None ps \<and> matched ps = []"
  then have "scan_pages env
      (world (emit (Print ''Attempting to update rating for movie(s) with title '{}' to {}...''
                      [Str title, Flt new_rating]) s)) (Some title) None ps"
    by simp
  from scan_all_pages [OF this] a
  show "map_option fst (update_movie_rating_by_title env title new_rating s) = Some (Inr None)"
    by (simp add: update_movie_rating_by_title_def)
next
  assume a: "scan_fault env (world s) (Some title) None ps (ClientError code message)"
  then have "scan_fault env
      (world (emit (Print ''Attempting to update rating for movie(s) with title '{}' to {}...''
                      [Str title, Flt new_rating]) s)) (Some title) None ps
      (ClientError code message)"
    by simp
  from scan_all_fault [OF this]
  show "map_option fst (update_movie_rating_by_title env title new_rating s) = Some (Inr None)"
    by (simp add: update_movie_rating_by_title_def)
next
  assume a: "scan_pages env (world s) (Some title) None ps \<and> matched ps \<noteq> []
        \<and> (\<forall>item \<in> set (matched ps). \<forall>w. skipped_or_fails env w title new_rating item)"
  then have "scan_pages env
      (world (emit (Print ''Attempting to update rating for movie(s) with title '{}' to {}...''
                      [Str title, Flt new_rating]) s)) (Some title) None ps"
    by simp
  note sa = scan_all_pages [OF this]
  from a have "\<forall>item \<in> set (matched ps). \<forall>w. skipped_or_fails env w title new_rating item"
    by simp
  from update_each_none [OF this] obtain s' where
    "update_each env title new_rating (matched ps) []
       (emit (Print ''Found {} movie(s) with title '{}'. Attempting to update...''
                [Len (length (matched ps)), Str title])
          (emit (Print ''Attempting to update rating for movie(s) with title '{}' to {}...''
                   [Str title, Flt new_rating]) s
           \<lparr>calls := calls (emit (Print ''Attempting to update rating for movie(s) with title '{}' to {}...''
                   [Str title, Flt new_rating]) s) @ scan_calls (Some title) None ps\<rparr>)) = (Inr [], s')"
    by blast
  with sa a
  show "map_option fst (update_movie_rating_by_title env title new_rating s) = Some (Inr None)"
    by (simp add: update_movie_rating_by_title_def)
qed

theorem update_by_title_none_thrice_witness:
  "(scan_pages table_env (world (initial three_movies [])) (Some ''Heat'') None heat_pages
    \<and> matched heat_pages = []
    \<and> map_option fst (update_movie_rating_by_title table_env ''Heat'' 9
                        (initial three_movies [])) = Some (Inr None))
   \<and> (scan_fault throttled_env (world (initial three_movies [])) (Some ''The Matrix'') None
        matrix_page (ClientError ''ProvisionedThroughputExceededException'' ''Rate exceeded'')
    \<and> map_option fst (update_movie_rating_by_title throttled_env ''The Matrix'' 9
                        (initial three_movies [])) = Some (Inr None))
   \<and> (scan_pages (rejecting_env ''ProvisionedThroughputExceededException'' ''Rate exceeded'')
        (world (initial three_movies [])) (Some ''The Matrix'') None matrix_pages
    \<and> matched matrix_pages \<noteq> []
    \<and> matched matrix_pages = [movie 1999 ''The Matrix'' (15/2)]
    \<and> (\<forall>w. skipped_or_fails
               (rejecting_env ''ProvisionedThroughputExceededException'' ''Rate exceeded'')
               w ''The Matrix'' 9 (movie 1999 ''The Matrix'' (15/2)))
    \<and> map_option fst
         (update_movie_rating_by_title
            (rejecting_env ''ProvisionedThroughputExceededException'' ''Rate exceeded'')
            ''The Matrix'' 9 (initial three_movies [])) = Some (Inr None))"
proof -
  have sk: "\<forall>item \<in> set (matched matrix_pages). \<forall>w.
          skipped_or_fails
            (rejecting_env ''ProvisionedThroughputExceededException'' ''Rate exceeded'')
            w ''The Matrix'' 9 item"
    by (simp add: matched_matrix_pages skipped_or_fails_def rejecting_env_def movie_def)
  have ne: "matched matrix_pages \<noteq> []"
    by (simp add: matched_matrix_pages)
  from heat_pages_scan matched_heat_pages update_by_title_none_thrice
    [of table_env "initial three_movies []" "''Heat''" heat_pages 9 "''c''" "''m''"]
  have 1: "map_option fst (update_movie_rating_by_title table_env ''Heat'' 9
                        (initial three_movies [])) = Some (Inr None)"
    by blast
  from matrix_page_fault update_by_title_none_thrice
    [of throttled_env "initial three_movies []" "''The Matrix''" matrix_page 9
        "''ProvisionedThroughputExceededException''" "''Rate exceeded''"]
  have 2: "map_option fst (update_movie_rating_by_title throttled_env ''The Matrix'' 9
                        (initial three_movies [])) = Some (Inr None)"
    by blast
  from matrix_pages_scan ne sk update_by_title_none_thrice
    [of "rejecting_env ''ProvisionedThroughputExceededException'' ''Rate exceeded''"
        "initial three_movies []" "''The Matrix''" matrix_pages 9 "''c''" "''m''"]
  have 3: "map_option fst
         (update_movie_rating_by_title
            (rejecting_env ''ProvisionedThroughputExceededException'' ''Rate exceeded'')
            ''The Matrix'' 9 (initial three_movies [])) = Some (Inr None)"
    by blast
  from sk have sk1: "\<forall>w. skipped_or_fails
      (rejecting_env ''ProvisionedThroughputExceededException'' ''Rate exceeded'')
      w ''The Matrix'' 9 (movie 1999 ''The Matrix'' (15/2))"
    by (simp add: matched_matrix_pages)
  from heat_pages_scan matched_heat_pages matrix_page_fault matrix_pages_scan ne sk1
    matched_matrix_pages 1 2 3
  show ?thesis by blast
qed

end
